theory Spec2Isabelle
  imports Complex_Main "HOL-Library.Word"
begin

section \<open>The obstacle detector node (obstacle\_detector\_node.cpp)\<close>

text \<open>
  The node is the per-frame driver of the detection pipeline. It owns three pieces of
  mutable state (the id counter and the previous and current box sets), reads eleven
  global parameters that the dynamic parameter callback writes, and calls into the
  \<open>ObstacleDetector\<close> class and the tf2 buffer. The embedding keeps the state as a record
  that every operation takes and returns, and records every call into a collaborator and
  every publication as an event, in program order.

  Numbers. The coordinates of points and boxes are \<open>float\<close> in the code and are copied
  into \<open>double\<close> fields of the messages, which is exact; they are modelled as \<open>real\<close>,
  and so is the literal \<open>1.0f\<close>. The parameters are different: the configuration holds
  \<open>double\<close> values and the callback assigns them to \<open>float\<close> variables, which rounds
  them and can give zero or infinity. The \<open>double\<close> values of a configuration are
  modelled as \<open>real\<close>, the type of the \<open>float\<close> parameters is left open (the type
  variable \<open>'f\<close>), and the conversion from one to the other is a parameter of the model,
  \<open>to_float\<close>. The id fields of the two box messages have 32 bits.
\<close>

subsection \<open>Values\<close>

type_synonym size_t = "64 word"

text \<open>\<open>size_t\<close> has 64 bits on the platforms the node is built for.\<close>

definition SIZE_MAX :: size_t where
  "SIZE_MAX = 18446744073709551615"

datatype Vector3f = Vector3f (coeff0: real) (coeff1: real) (coeff2: real)

datatype 'f Vector4f = Vector4f 'f 'f 'f 'f

text \<open>\<open>Eigen::Quaternionf\<close>, in the order of its constructor: w, x, y, z.\<close>

datatype Quaternionf = Quaternionf (quat_w: real) (quat_x: real) (quat_y: real) (quat_z: real)

type_synonym PointXYZ = "real \<times> real \<times> real"

type_synonym PointCloud = "PointXYZ list"

text \<open>
  Modelled from the spec: the struct \<open>Box\<close> is declared in a header of the repository
  that is not among the sources at hand. The spec gives it an id (a non-negative
  integer), a position, a dimension and an orientation; the field names are the ones the
  node reads (\<open>box.id\<close>, \<open>box.position\<close>, \<open>box.dimension\<close>, \<open>box.quaternion\<close>).
\<close>

record Box =
  box_id :: nat
  position :: Vector3f
  dimension :: Vector3f
  quaternion :: Quaternionf

subsection \<open>Messages\<close>

record Header =
  seq :: "32 word"
  stamp :: nat
  frame_id :: string

definition default_Header :: Header where
  "default_Header = \<lparr>seq = 0, stamp = 0, frame_id = ''''\<rparr>"

record PointCloud2 =
  cloud_header :: Header
  cloud_data :: PointCloud

record Point =
  point_x :: real
  point_y :: real
  point_z :: real

record Quaternion =
  orientation_x :: real
  orientation_y :: real
  orientation_z :: real
  orientation_w :: real

record Pose =
  pose_position :: Point
  pose_orientation :: Quaternion

record Vector3 =
  vector_x :: real
  vector_y :: real
  vector_z :: real

record TransformStamped =
  transform_header :: Header
  child_frame_id :: string
  translation :: Vector3
  rotation :: Quaternion

text \<open>
  \<open>jsk_recognition_msgs::BoundingBox\<close>. Its \<open>label\<close> is a number of 32 bits (\<open>uint32\<close>);
  the node stores the box id there.
\<close>

record BoundingBox =
  jsk_header :: Header
  jsk_pose :: Pose
  jsk_dimensions :: Vector3
  jsk_value :: real
  jsk_label :: "32 word"

record BoundingBoxArray =
  jsk_array_header :: Header
  jsk_boxes :: "BoundingBox list"

text \<open>
  \<open>autoware_msgs::DetectedObject\<close>, with the fields the node writes. The message has
  more fields (velocity, convex hull, image region and others); the node leaves them as
  the message's constructor made them. The \<open>id\<close> is a \<open>uint32\<close>.
\<close>

record DetectedObject =
  aw_header :: Header
  aw_id :: "32 word"
  aw_label :: string
  aw_score :: real
  aw_pose :: Pose
  aw_pose_reliable :: bool
  aw_dimensions :: Vector3
  aw_valid :: bool

record DetectedObjectArray =
  aw_array_header :: Header
  aw_objects :: "DetectedObject list"

subsection \<open>Parameters\<close>

text \<open>The configuration snapshot that the dynamic parameter server hands to its callback.\<close>

record obstacle_detector_Config =
  use_pca_box :: bool
  use_tracking :: bool
  voxel_grid_size :: real
  roi_max_x :: real
  roi_max_y :: real
  roi_max_z :: real
  roi_min_x :: real
  roi_min_y :: real
  roi_min_z :: real
  ground_threshold :: real
  cluster_threshold :: real
  cluster_max_size :: int
  cluster_min_size :: int
  displacement_threshold :: real
  iou_threshold :: real

text \<open>
  The namespace-level variables of the node. The thresholds and the corners of the region
  of interest are \<open>float\<close>, the cluster sizes are \<open>int\<close>.
\<close>

record 'f Parameters =
  USE_PCA_BOX :: bool
  USE_TRACKING :: bool
  VOXEL_GRID_SIZE :: 'f
  ROI_MAX_POINT :: "'f Vector4f"
  ROI_MIN_POINT :: "'f Vector4f"
  GROUND_THRESH :: 'f
  CLUSTER_THRESH :: 'f
  CLUSTER_MAX_SIZE :: int
  CLUSTER_MIN_SIZE :: int
  DISPLACEMENT_THRESH :: 'f
  IOU_THRESH :: 'f

text \<open>
  The parameter callback. Every assignment of a \<open>double\<close> of the configuration to a
  \<open>float\<close> variable converts the value, and so do the constructors of the two corners,
  which also convert the constant 1.
\<close>

definition dynamicParamCallback ::
  "(real \<Rightarrow> 'f) \<Rightarrow> obstacle_detector_Config \<Rightarrow> 32 word \<Rightarrow> 'f Parameters \<Rightarrow> 'f Parameters" where
  "dynamicParamCallback to_float config level P =
     P\<lparr>USE_PCA_BOX := use_pca_box config,
       USE_TRACKING := use_tracking config,
       VOXEL_GRID_SIZE := to_float (voxel_grid_size config),
       ROI_MAX_POINT :=
         Vector4f (to_float (roi_max_x config)) (to_float (roi_max_y config))
           (to_float (roi_max_z config)) (to_float 1),
       ROI_MIN_POINT :=
         Vector4f (to_float (roi_min_x config)) (to_float (roi_min_y config))
           (to_float (roi_min_z config)) (to_float 1),
       GROUND_THRESH := to_float (ground_threshold config),
       CLUSTER_THRESH := to_float (cluster_threshold config),
       CLUSTER_MAX_SIZE := cluster_max_size config,
       CLUSTER_MIN_SIZE := cluster_min_size config,
       DISPLACEMENT_THRESH := to_float (displacement_threshold config),
       IOU_THRESH := to_float (iou_threshold config)\<rparr>"

subsection \<open>Collaborators\<close>

text \<open>
  The class \<open>ObstacleDetector\<close> lives in a header that is not among the sources at hand;
  its six operations are taken as parameters, with the arguments the node passes. The
  tracker changes the current boxes in place: here it returns them.
\<close>

record 'f ObstacleDetector =
  filterCloud :: "PointCloud \<Rightarrow> 'f \<Rightarrow> 'f Vector4f \<Rightarrow> 'f Vector4f \<Rightarrow> PointCloud"
  segmentPlane :: "PointCloud \<Rightarrow> int \<Rightarrow> 'f \<Rightarrow> PointCloud \<times> PointCloud"
  clustering :: "PointCloud \<Rightarrow> 'f \<Rightarrow> int \<Rightarrow> int \<Rightarrow> PointCloud list"
  pcaBoundingBox :: "PointCloud \<Rightarrow> size_t \<Rightarrow> Box"
  axisAlignedBoundingBox :: "PointCloud \<Rightarrow> size_t \<Rightarrow> Box"
  obstacleTracking :: "Box list \<Rightarrow> Box list \<Rightarrow> 'f \<Rightarrow> 'f \<Rightarrow> Box list"

datatype TransformException = TransformException (what: string)

text \<open>
  The tf2 buffer as the node sees it during one frame: a lookup by target and source
  frame that either throws or returns a transform, and the application of a transform to
  a pose.
\<close>

record tf2 =
  lookupTransform :: "string \<Rightarrow> string \<Rightarrow> TransformException + TransformStamped"
  doTransform :: "Pose \<Rightarrow> TransformStamped \<Rightarrow> Pose"

subsection \<open>Events\<close>

datatype 'f event =
    ROS_INFO string
  | ROS_WARN string
  | Call_filterCloud PointCloud 'f "'f Vector4f" "'f Vector4f"
  | Call_segmentPlane PointCloud int 'f
  | Call_clustering PointCloud 'f int int
  | Call_lookupTransform string string
  | Call_pcaBoundingBox PointCloud size_t
  | Call_axisAlignedBoundingBox PointCloud size_t
  | Call_obstacleTracking "Box list" "Box list" 'f 'f
  | Publish_cloud_ground PointCloud2
  | Publish_cloud_clusters PointCloud2
  | Publish_jsk_bboxes BoundingBoxArray
  | Publish_autoware_objects DetectedObjectArray

subsection \<open>The node\<close>

record ObstacleDetectorNode =
  obstacle_id :: size_t
  bbox_target_frame :: string
  prev_boxes :: "Box list"
  curr_boxes :: "Box list"

text \<open>The constructor: the counter starts at 0 and both box sets are empty.\<close>

definition new_ObstacleDetectorNode :: "string \<Rightarrow> ObstacleDetectorNode" where
  "new_ObstacleDetectorNode target =
     \<lparr>obstacle_id = 0, bbox_target_frame = target, prev_boxes = [], curr_boxes = []\<rparr>"

definition publishClouds :: "PointCloud \<times> PointCloud \<Rightarrow> Header \<Rightarrow> 'f event list" where
  "publishClouds segmented_clouds header =
     (let ground_cloud = \<lparr>cloud_header = header, cloud_data = snd segmented_clouds\<rparr>;
          obstacle_cloud = \<lparr>cloud_header = header, cloud_data = fst segmented_clouds\<rparr>
      in [Publish_cloud_ground ground_cloud, Publish_cloud_clusters obstacle_cloud])"

definition box_dimensions :: "Box \<Rightarrow> Vector3" where
  "box_dimensions box =
     \<lparr>vector_x = coeff0 (dimension box), vector_y = coeff1 (dimension box),
      vector_z = coeff2 (dimension box)\<rparr>"

definition transformJskBbox :: "ObstacleDetectorNode \<Rightarrow> Box \<Rightarrow> Pose \<Rightarrow> BoundingBox" where
  "transformJskBbox this box pose_transformed =
     \<lparr>jsk_header = default_Header\<lparr>frame_id := bbox_target_frame this\<rparr>,
      jsk_pose = pose_transformed,
      jsk_dimensions = box_dimensions box,
      jsk_value = 1,
      jsk_label = of_nat (box_id box)\<rparr>"

definition transformAutowareObject ::
  "ObstacleDetectorNode \<Rightarrow> Box \<Rightarrow> Pose \<Rightarrow> DetectedObject" where
  "transformAutowareObject this box pose_transformed =
     \<lparr>aw_header = default_Header\<lparr>frame_id := bbox_target_frame this\<rparr>,
      aw_id = of_nat (box_id box),
      aw_label = ''unknown'',
      aw_score = 1,
      aw_pose = pose_transformed,
      aw_pose_reliable = True,
      aw_dimensions = box_dimensions box,
      aw_valid = True\<rparr>"

text \<open>The counter update of the box loop: \<open>(obstacle_id_ < SIZE_MAX)? ++obstacle_id_ : 0\<close>.\<close>

definition next_obstacle_id :: "size_t \<Rightarrow> size_t" where
  "next_obstacle_id i = (if i < SIZE_MAX then i + 1 else 0)"

text \<open>
  The loop over the clusters: one box per cluster, from the fitter that \<open>USE_PCA_BOX\<close>
  selects, with the counter as its id; then the counter moves on and the box is appended
  to the current boxes.
\<close>

fun construct_boxes ::
  "'f ObstacleDetector \<Rightarrow> 'f Parameters \<Rightarrow> PointCloud list \<Rightarrow> ObstacleDetectorNode
     \<Rightarrow> ObstacleDetectorNode \<times> 'f event list" where
  "construct_boxes od P [] this = (this, [])"
| "construct_boxes od P (cluster # clusters) this =
     (let box = (if USE_PCA_BOX P then pcaBoundingBox od cluster (obstacle_id this)
                 else axisAlignedBoundingBox od cluster (obstacle_id this));
          call = (if USE_PCA_BOX P then Call_pcaBoundingBox cluster (obstacle_id this)
                  else Call_axisAlignedBoundingBox cluster (obstacle_id this));
          this1 = this\<lparr>obstacle_id := next_obstacle_id (obstacle_id this)\<rparr>;
          this2 = this1\<lparr>curr_boxes := curr_boxes this1 @ [box]\<rparr>;
          (this3, events) = construct_boxes od P clusters this2
      in (this3, call # events))"

text \<open>The pose of a box in the lidar frame, as the second loop fills it in.\<close>

definition box_pose :: "Box \<Rightarrow> Pose" where
  "box_pose box =
     \<lparr>pose_position = \<lparr>point_x = coeff0 (position box), point_y = coeff1 (position box),
                       point_z = coeff2 (position box)\<rparr>,
      pose_orientation = \<lparr>orientation_x = quat_x (quaternion box),
                          orientation_y = quat_y (quaternion box),
                          orientation_z = quat_z (quaternion box),
                          orientation_w = quat_w (quaternion box)\<rparr>\<rparr>"

definition lidarPointsCallback ::
  "'f ObstacleDetector \<Rightarrow> tf2 \<Rightarrow> 'f Parameters \<Rightarrow> PointCloud2 \<Rightarrow> ObstacleDetectorNode
     \<Rightarrow> ObstacleDetectorNode \<times> 'f event list" where
  "lidarPointsCallback od tf2_buffer P lidar_points this =
     (let raw_cloud = cloud_data lidar_points;
          filtered_cloud =
            filterCloud od raw_cloud (VOXEL_GRID_SIZE P) (ROI_MIN_POINT P) (ROI_MAX_POINT P);
          segmented_clouds = segmentPlane od filtered_cloud 30 (GROUND_THRESH P);
          cloudClusters =
            clustering od (fst segmented_clouds) (CLUSTER_THRESH P) (CLUSTER_MIN_SIZE P)
              (CLUSTER_MAX_SIZE P);
          before_lookup =
            [ROS_INFO ''lidar points recieved'',
             Call_filterCloud raw_cloud (VOXEL_GRID_SIZE P) (ROI_MIN_POINT P) (ROI_MAX_POINT P),
             Call_segmentPlane filtered_cloud 30 (GROUND_THRESH P),
             Call_clustering (fst segmented_clouds) (CLUSTER_THRESH P) (CLUSTER_MIN_SIZE P)
               (CLUSTER_MAX_SIZE P)]
            @ publishClouds segmented_clouds (cloud_header lidar_points)
            @ [Call_lookupTransform (bbox_target_frame this)
                 (frame_id (cloud_header lidar_points))]
      in case lookupTransform tf2_buffer (bbox_target_frame this)
                (frame_id (cloud_header lidar_points)) of
           Inl ex \<Rightarrow> (this, before_lookup @ [ROS_WARN (what ex)])
         | Inr transform_stamped \<Rightarrow>
             (let header = (cloud_header lidar_points)\<lparr>frame_id := bbox_target_frame this\<rparr>;
                  (this1, fitted) = construct_boxes od P cloudClusters this;
                  this2 =
                    (if USE_TRACKING P
                     then this1\<lparr>curr_boxes :=
                            obstacleTracking od (prev_boxes this1) (curr_boxes this1)
                              (DISPLACEMENT_THRESH P) (IOU_THRESH P)\<rparr>
                     else this1);
                  tracked =
                    (if USE_TRACKING P
                     then [Call_obstacleTracking (prev_boxes this1) (curr_boxes this1)
                             (DISPLACEMENT_THRESH P) (IOU_THRESH P)]
                     else []);
                  transformed =
                    map (\<lambda>box. (box, doTransform tf2_buffer (box_pose box) transform_stamped))
                      (curr_boxes this2);
                  jsk_bboxes =
                    \<lparr>jsk_array_header = header,
                     jsk_boxes = map (\<lambda>(box, pose). transformJskBbox this2 box pose) transformed\<rparr>;
                  autoware_objects =
                    \<lparr>aw_array_header = header,
                     aw_objects =
                       map (\<lambda>(box, pose). transformAutowareObject this2 box pose) transformed\<rparr>;
                  this3 = this2\<lparr>prev_boxes := curr_boxes this2, curr_boxes := prev_boxes this2\<rparr>;
                  this4 = this3\<lparr>curr_boxes := []\<rparr>
              in (this4,
                  before_lookup @ fitted @ tracked
                  @ [Publish_jsk_bboxes jsk_bboxes, Publish_autoware_objects autoware_objects])))"

subsection \<open>The callbacks in sequence\<close>

text \<open>
  \<open>ros::spin\<close> delivers one message at a time: a new configuration to the parameter
  callback, or a frame (with the tf2 buffer as it is at that moment) to the lidar
  callback.
\<close>

datatype input =
    Reconfigure obstacle_detector_Config "32 word"
  | LidarPoints tf2 PointCloud2

record 'f System =
  parameters :: "'f Parameters"
  node :: ObstacleDetectorNode

fun deliver ::
  "(real \<Rightarrow> 'f) \<Rightarrow> 'f ObstacleDetector \<Rightarrow> 'f System \<Rightarrow> input \<Rightarrow> 'f System" where
  "deliver to_float od s (Reconfigure config level) =
     s\<lparr>parameters := dynamicParamCallback to_float config level (parameters s)\<rparr>"
| "deliver to_float od s (LidarPoints tf2_buffer lidar_points) =
     s\<lparr>node := fst (lidarPointsCallback od tf2_buffer (parameters s) lidar_points (node s))\<rparr>"

definition spin ::
  "(real \<Rightarrow> 'f) \<Rightarrow> 'f ObstacleDetector \<Rightarrow> 'f System \<Rightarrow> input list \<Rightarrow> 'f System" where
  "spin to_float od s inputs = foldl (deliver to_float od) s inputs"

subsection \<open>What a frame computes\<close>

text \<open>
  Names for the intermediate values of one callback, used to state its properties: the
  fitter that the flag selects, the boxes fitted to a list of clusters from a given
  counter value on, the clusters of a frame, and the current boxes of a frame after the
  tracking step.
\<close>

definition fit :: "'f ObstacleDetector \<Rightarrow> 'f Parameters \<Rightarrow> PointCloud \<Rightarrow> size_t \<Rightarrow> Box" where
  "fit od P cluster i =
     (if USE_PCA_BOX P then pcaBoundingBox od cluster i else axisAlignedBoundingBox od cluster i)"

fun fitted_boxes ::
  "'f ObstacleDetector \<Rightarrow> 'f Parameters \<Rightarrow> PointCloud list \<Rightarrow> size_t \<Rightarrow> Box list" where
  "fitted_boxes od P [] i = []"
| "fitted_boxes od P (cluster # clusters) i =
     fit od P cluster i # fitted_boxes od P clusters (next_obstacle_id i)"

definition frame_clusters ::
  "'f ObstacleDetector \<Rightarrow> 'f Parameters \<Rightarrow> PointCloud2 \<Rightarrow> PointCloud list" where
  "frame_clusters od P lidar_points =
     clustering od
       (fst (segmentPlane od
          (filterCloud od (cloud_data lidar_points) (VOXEL_GRID_SIZE P) (ROI_MIN_POINT P)
             (ROI_MAX_POINT P))
          30 (GROUND_THRESH P)))
       (CLUSTER_THRESH P) (CLUSTER_MIN_SIZE P) (CLUSTER_MAX_SIZE P)"

definition frame_boxes ::
  "'f ObstacleDetector \<Rightarrow> 'f Parameters \<Rightarrow> PointCloud2 \<Rightarrow> ObstacleDetectorNode \<Rightarrow> Box list" where
  "frame_boxes od P lidar_points this =
     (let current = curr_boxes this
            @ fitted_boxes od P (frame_clusters od P lidar_points) (obstacle_id this)
      in if USE_TRACKING P
         then obstacleTracking od (prev_boxes this) current (DISPLACEMENT_THRESH P) (IOU_THRESH P)
         else current)"

fun is_box_publication :: "'f event \<Rightarrow> bool" where
  "is_box_publication (Publish_jsk_bboxes m) = True"
| "is_box_publication (Publish_autoware_objects m) = True"
| "is_box_publication e = False"

fun is_tracking_call :: "'f event \<Rightarrow> bool" where
  "is_tracking_call (Call_obstacleTracking previous current dt it) = True"
| "is_tracking_call e = False"

fun is_fit_call :: "'f event \<Rightarrow> bool" where
  "is_fit_call (Call_pcaBoundingBox cluster i) = True"
| "is_fit_call (Call_axisAlignedBoundingBox cluster i) = True"
| "is_fit_call e = False"

fun published_jsk_boxes :: "'f event list \<Rightarrow> BoundingBox list" where
  "published_jsk_boxes [] = []"
| "published_jsk_boxes (Publish_jsk_bboxes m # es) = jsk_boxes m @ published_jsk_boxes es"
| "published_jsk_boxes (e # es) = published_jsk_boxes es"

fun published_autoware_objects :: "'f event list \<Rightarrow> DetectedObject list" where
  "published_autoware_objects [] = []"
| "published_autoware_objects (Publish_autoware_objects m # es) =
     aw_objects m @ published_autoware_objects es"
| "published_autoware_objects (e # es) = published_autoware_objects es"

fun segmentation_budgets :: "'f event list \<Rightarrow> int list" where
  "segmentation_budgets [] = []"
| "segmentation_budgets (Call_segmentPlane cloud n thr # es) = n # segmentation_budgets es"
| "segmentation_budgets (e # es) = segmentation_budgets es"

definition fit_call :: "'f Parameters \<Rightarrow> PointCloud \<Rightarrow> size_t \<Rightarrow> 'f event" where
  "fit_call P cluster i =
     (if USE_PCA_BOX P then Call_pcaBoundingBox cluster i else Call_axisAlignedBoundingBox cluster i)"

definition frame_segments ::
  "'f ObstacleDetector \<Rightarrow> 'f Parameters \<Rightarrow> PointCloud2 \<Rightarrow> PointCloud \<times> PointCloud" where
  "frame_segments od P lidar_points =
     segmentPlane od
       (filterCloud od (cloud_data lidar_points) (VOXEL_GRID_SIZE P) (ROI_MIN_POINT P)
          (ROI_MAX_POINT P))
       30 (GROUND_THRESH P)"

text \<open>
  The configurations that the spec calls invalid: a threshold that is not positive, or a
  smallest cluster size above the largest.
\<close>

definition invalid_config :: "obstacle_detector_Config \<Rightarrow> bool" where
  "invalid_config config \<longleftrightarrow>
     voxel_grid_size config \<le> 0 \<or> ground_threshold config \<le> 0 \<or> cluster_threshold config \<le> 0
     \<or> cluster_max_size config < cluster_min_size config"

subsection \<open>The tracker\<close>

text \<open>
  Modelled from the spec: the tracker is \<open>obstacleTracking\<close> of the class
  \<open>ObstacleDetector\<close>, whose header is not among the sources at hand. Section 4.5 of the
  spec describes it. For every pair of a previous and a current box it computes the
  Euclidean displacement of the centroids and the intersection over union of the two
  boxes taken as axis-aligned. A pair is eligible when the displacement is at most the
  displacement threshold or the intersection over union is at least its threshold.
  Matches are resolved greedily: the best remaining eligible pair is taken, the current
  box gets the id of the previous box, and both boxes leave the game; this goes on until
  no eligible pair remains. Unmatched current boxes keep their ids.

  The spec asks for a fixed rule for the best pair and leaves its choice open. Here the
  best pair is the one with the lowest displacement, among pairs of equal displacement
  the one with the highest intersection over union, and among those the first in the
  order of the two lists.
\<close>

definition displacement :: "Box \<Rightarrow> Box \<Rightarrow> real" where
  "displacement P C =
     sqrt ((coeff0 (position P) - coeff0 (position C))\<^sup>2
         + (coeff1 (position P) - coeff1 (position C))\<^sup>2
         + (coeff2 (position P) - coeff2 (position C))\<^sup>2)"

definition overlap :: "real \<Rightarrow> real \<Rightarrow> real \<Rightarrow> real \<Rightarrow> real" where
  "overlap p dp c dc = max 0 (min (p + dp / 2) (c + dc / 2) - max (p - dp / 2) (c - dc / 2))"

definition volume :: "Box \<Rightarrow> real" where
  "volume B = coeff0 (dimension B) * coeff1 (dimension B) * coeff2 (dimension B)"

definition intersection :: "Box \<Rightarrow> Box \<Rightarrow> real" where
  "intersection P C =
     overlap (coeff0 (position P)) (coeff0 (dimension P)) (coeff0 (position C))
       (coeff0 (dimension C))
     * overlap (coeff1 (position P)) (coeff1 (dimension P)) (coeff1 (position C))
         (coeff1 (dimension C))
     * overlap (coeff2 (position P)) (coeff2 (dimension P)) (coeff2 (position C))
         (coeff2 (dimension C))"

definition iou :: "Box \<Rightarrow> Box \<Rightarrow> real" where
  "iou P C =
     (let i = intersection P C; u = volume P + volume C - i
      in if u = 0 then 0 else i / u)"

definition eligible :: "real \<Rightarrow> real \<Rightarrow> Box \<Rightarrow> Box \<Rightarrow> bool" where
  "eligible dt it P C \<longleftrightarrow> displacement P C \<le> dt \<or> it \<le> iou P C"

definition eligible_pairs ::
  "real \<Rightarrow> real \<Rightarrow> Box list \<Rightarrow> Box list \<Rightarrow> nat list \<Rightarrow> nat list \<Rightarrow> (nat \<times> nat) list" where
  "eligible_pairs dt it ps cs ms ns =
     concat (map (\<lambda>i. map (\<lambda>j. (i, j)) (filter (\<lambda>j. eligible dt it (ps ! i) (cs ! j)) ns)) ms)"

definition score_better :: "Box list \<Rightarrow> Box list \<Rightarrow> nat \<times> nat \<Rightarrow> nat \<times> nat \<Rightarrow> bool" where
  "score_better ps cs a b \<longleftrightarrow>
     displacement (ps ! fst a) (cs ! snd a) < displacement (ps ! fst b) (cs ! snd b)
     \<or> (displacement (ps ! fst a) (cs ! snd a) = displacement (ps ! fst b) (cs ! snd b)
        \<and> iou (ps ! fst b) (cs ! snd b) < iou (ps ! fst a) (cs ! snd a))"

fun best_pair :: "Box list \<Rightarrow> Box list \<Rightarrow> (nat \<times> nat) list \<Rightarrow> (nat \<times> nat) option" where
  "best_pair ps cs [] = None"
| "best_pair ps cs (a # rest) =
     (case best_pair ps cs rest of
        None \<Rightarrow> Some a
      | Some b \<Rightarrow> if score_better ps cs b a then Some b else Some a)"

function greedy ::
  "real \<Rightarrow> real \<Rightarrow> Box list \<Rightarrow> Box list \<Rightarrow> nat list \<Rightarrow> nat list \<Rightarrow> (nat \<times> nat) list" where
  "greedy dt it ps cs ms ns =
     (case best_pair ps cs (eligible_pairs dt it ps cs ms ns) of
        None \<Rightarrow> []
      | Some (i, j) \<Rightarrow> (i, j) # greedy dt it ps cs (removeAll i ms) (removeAll j ns))"
  by pat_completeness auto

termination
proof (relation "measure (\<lambda>(dt, it, ps, cs, ms, ns). length ms)")
  show "wf (measure (\<lambda>(dt, it, ps, cs, ms, ns). length ms))"
    by simp
next
  fix dt it :: real and ps cs :: "Box list" and ms ns :: "nat list" and x2 :: "nat \<times> nat"
    and i j :: nat
  assume best: "best_pair ps cs (eligible_pairs dt it ps cs ms ns) = Some x2"
    and pair: "(i, j) = x2"
  have mem: "best_pair ps cs xs = Some p \<Longrightarrow> p \<in> set xs" for xs p
    by (induction xs arbitrary: p) (auto split: option.splits if_splits)
  have "(i, j) \<in> set (eligible_pairs dt it ps cs ms ns)"
    using mem [OF best] pair by simp
  then have "i \<in> set ms"
    by (auto simp: eligible_pairs_def)
  then have "length (removeAll i ms) < length ms"
    by (simp add: length_removeAll_less)
  then show "((dt, it, ps, cs, removeAll i ms, removeAll j ns), (dt, it, ps, cs, ms, ns))
      \<in> measure (\<lambda>(dt, it, ps, cs, ms, ns). length ms)"
    by simp
qed

declare greedy.simps [simp del]

definition reassign :: "Box list \<Rightarrow> (nat \<times> nat) list \<Rightarrow> Box list \<Rightarrow> Box list" where
  "reassign ps matches cs =
     map (\<lambda>j. case map_of (map (\<lambda>(i, j). (j, i)) matches) j of
                 None \<Rightarrow> cs ! j
               | Some i \<Rightarrow> (cs ! j)\<lparr>box_id := box_id (ps ! i)\<rparr>)
       [0..<length cs]"

definition track :: "Box list \<Rightarrow> Box list \<Rightarrow> real \<Rightarrow> real \<Rightarrow> Box list" where
  "track previous current dt it =
     reassign previous
       (greedy dt it previous current [0..<length previous] [0..<length current]) current"

text \<open>
  A node whose previous boxes have pairwise distinct ids, all of them below the counter,
  and whose current boxes are empty: the state of the node between two frames as long
  as the counter has not started again from 0.
\<close>

definition ids_below_counter :: "ObstacleDetectorNode \<Rightarrow> bool" where
  "ids_below_counter this \<longleftrightarrow>
     curr_boxes this = [] \<and> distinct (map box_id (prev_boxes this))
     \<and> list_all (\<lambda>b. box_id b < unat (obstacle_id this)) (prev_boxes this)"

subsection \<open>Example values\<close>

text \<open>
  A small detector, two tf2 buffers (one that has the transform and one that has not), a
  parameter set, a frame of three points and a node that has seen one box before. The
  properties below are evaluated on them. The detector takes the points above the
  threshold as obstacles, makes a cluster of every obstacle point and fits
  a box around the first point of a cluster, twice as wide and four times as high as it
  is long and turned by a fixed rotation; its tracker gives a current box the id of the
  first previous box at the same position. The example conversion to \<open>float\<close> rounds
  one tenth to the nearest \<open>float\<close> and leaves the other numbers of the examples, which
  are \<open>float\<close> values, as they are.
\<close>

definition example_to_float :: "real \<Rightarrow> real" where
  "example_to_float x = (if x = 1 / 10 then 13421773 / 134217728 else x)"

definition example_fit :: "real \<Rightarrow> PointCloud \<Rightarrow> size_t \<Rightarrow> Box" where
  "example_fit d cluster i =
     \<lparr>box_id = unat i,
      position = (case cluster of [] \<Rightarrow> Vector3f 0 0 0 | (x, y, z) # _ \<Rightarrow> Vector3f x y z),
      dimension = Vector3f d (2 * d) (4 * d),
      quaternion = Quaternionf (1 / 2) (1 / 10) (7 / 10) (1 / 2)\<rparr>"

definition example_tracking :: "Box list \<Rightarrow> Box list \<Rightarrow> real \<Rightarrow> real \<Rightarrow> Box list" where
  "example_tracking previous current dt it =
     map (\<lambda>c. case find (\<lambda>p. position p = position c) previous of
                 None \<Rightarrow> c
               | Some p \<Rightarrow> c\<lparr>box_id := box_id p\<rparr>) current"

definition example_detector :: "real ObstacleDetector" where
  "example_detector =
     \<lparr>filterCloud = (\<lambda>cloud size lo hi. cloud),
      segmentPlane =
        (\<lambda>cloud n thr. (filter (\<lambda>(x, y, z). thr < z) cloud, filter (\<lambda>(x, y, z). z \<le> thr) cloud)),
      clustering = (\<lambda>cloud tol lo hi. map (\<lambda>p. [p]) cloud),
      pcaBoundingBox = example_fit 2,
      axisAlignedBoundingBox = example_fit 1,
      obstacleTracking = example_tracking\<rparr>"

definition example_parameters :: "real Parameters" where
  "example_parameters =
     \<lparr>USE_PCA_BOX = False, USE_TRACKING = True, VOXEL_GRID_SIZE = 1,
      ROI_MAX_POINT = Vector4f 10 10 10 1, ROI_MIN_POINT = Vector4f (-10) (-10) (-10) 1,
      GROUND_THRESH = 0, CLUSTER_THRESH = 1, CLUSTER_MAX_SIZE = 100, CLUSTER_MIN_SIZE = 1,
      DISPLACEMENT_THRESH = 1, IOU_THRESH = 1\<rparr>"

definition example_points :: PointCloud2 where
  "example_points =
     \<lparr>cloud_header = \<lparr>seq = 7, stamp = 100, frame_id = ''lidar''\<rparr>,
      cloud_data = [(1, 2, 3), (0, 0, 0), (5, 6, 2)]\<rparr>"

definition example_node :: ObstacleDetectorNode where
  "example_node =
     \<lparr>obstacle_id = 4, bbox_target_frame = ''base_link'',
      prev_boxes = [example_fit 1 [(1, 2, 3)] 2],
      curr_boxes = []\<rparr>"

definition tf2_unavailable :: tf2 where
  "tf2_unavailable =
     \<lparr>lookupTransform = (\<lambda>target source. Inl (TransformException ''no transform'')),
      doTransform = (\<lambda>pose t. pose)\<rparr>"

definition example_transform :: TransformStamped where
  "example_transform =
     \<lparr>transform_header = \<lparr>seq = 0, stamp = 0, frame_id = ''base_link''\<rparr>,
      child_frame_id = ''lidar'',
      translation = \<lparr>vector_x = 10, vector_y = 20, vector_z = 30\<rparr>,
      rotation = \<lparr>orientation_x = 0, orientation_y = 0, orientation_z = 0, orientation_w = 1\<rparr>\<rparr>"

definition tf2_available :: tf2 where
  "tf2_available =
     \<lparr>lookupTransform = (\<lambda>target source. Inr example_transform),
      doTransform =
        (\<lambda>pose t. pose\<lparr>pose_position :=
           \<lparr>point_x = point_x (pose_position pose) + vector_x (translation t),
            point_y = point_y (pose_position pose) + vector_y (translation t),
            point_z = point_z (pose_position pose) + vector_z (translation t)\<rparr>\<rparr>)\<rparr>"

definition example_bad_config :: obstacle_detector_Config where
  "example_bad_config =
     \<lparr>use_pca_box = False, use_tracking = True, voxel_grid_size = 1 / 10,
      roi_max_x = 10, roi_max_y = 10, roi_max_z = 10,
      roi_min_x = - 10, roi_min_y = - 10, roi_min_z = - 10,
      ground_threshold = - 1, cluster_threshold = 1,
      cluster_max_size = 5, cluster_min_size = 10,
      displacement_threshold = 1, iou_threshold = 1\<rparr>"

text \<open>
  A node whose counter has reached \<open>2 ^ 32\<close>, the example detector with the tracker of
  the spec, and a node whose counter has reached \<open>SIZE_MAX\<close> while a box that has been
  tracked since the first frame still has the id 0.
\<close>

definition node_at_32_bits :: ObstacleDetectorNode where
  "node_at_32_bits =
     \<lparr>obstacle_id = 4294967296, bbox_target_frame = ''base_link'', prev_boxes = [],
      curr_boxes = []\<rparr>"

definition tracking_detector :: "real ObstacleDetector" where
  "tracking_detector = example_detector\<lparr>obstacleTracking := track\<rparr>"

definition node_after_wrap :: ObstacleDetectorNode where
  "node_after_wrap =
     \<lparr>obstacle_id = SIZE_MAX, bbox_target_frame = ''base_link'',
      prev_boxes = [example_fit 1 [(1, 2, 3)] 0],
      curr_boxes = []\<rparr>"

section \<open>Properties\<close>

subsection \<open>The box loop\<close>

lemma construct_boxes_fst:
  "fst (construct_boxes od P clusters this) =
     this\<lparr>obstacle_id := (next_obstacle_id ^^ length clusters) (obstacle_id this),
          curr_boxes := curr_boxes this @ fitted_boxes od P clusters (obstacle_id this)\<rparr>"
proof (induction clusters arbitrary: this)
  case Nil
  show ?case by simp
next
  case (Cons cluster clusters)
  show ?case
    by (simp add: Let_def split_beta Cons.IH fit_def funpow_swap1)
qed

lemma construct_boxes_snd:
  "snd (construct_boxes od P clusters this) =
     map (\<lambda>k. fit_call P (clusters ! k) ((next_obstacle_id ^^ k) (obstacle_id this)))
       [0..<length clusters]"
proof (induction clusters arbitrary: this)
  case Nil
  show ?case by simp
next
  case (Cons cluster clusters)
  have "[0..<length (cluster # clusters)] = 0 # map Suc [0..<length clusters]"
    by (simp add: upt_conv_Cons map_Suc_upt del: upt_Suc)
  then show ?case
    by (simp add: Let_def split_beta Cons.IH fit_call_def funpow_swap1 comp_def del: upt_Suc)
qed

lemma fitted_boxes_length: "length (fitted_boxes od P clusters i) = length clusters"
  by (induction clusters arbitrary: i) simp_all

lemma fitted_boxes_nth:
  "k < length clusters \<Longrightarrow>
     fitted_boxes od P clusters i ! k = fit od P (clusters ! k) ((next_obstacle_id ^^ k) i)"
proof (induction clusters arbitrary: i k)
  case Nil
  then show ?case by simp
next
  case (Cons cluster clusters)
  then show ?case by (cases k) (simp_all add: funpow_swap1)
qed

lemma fitted_boxes_map:
  "fitted_boxes od P clusters c =
     map (\<lambda>k. fit od P (clusters ! k) ((next_obstacle_id ^^ k) c)) [0..<length clusters]"
  by (rule nth_equalityI) (simp_all add: fitted_boxes_length fitted_boxes_nth)

lemma fit_tracker_update [simp]:
  "fit (od\<lparr>obstacleTracking := other\<rparr>) P = fit od P"
  by (simp add: fit_def fun_eq_iff)

lemma fitted_boxes_tracker_update [simp]:
  "fitted_boxes (od\<lparr>obstacleTracking := other\<rparr>) P clusters i = fitted_boxes od P clusters i"
  by (induction clusters arbitrary: i) simp_all

lemma construct_boxes_tracker_update:
  "construct_boxes (od\<lparr>obstacleTracking := other\<rparr>) P clusters this
     = construct_boxes od P clusters this"
  by (induction clusters arbitrary: this) (simp_all add: Let_def)

subsection \<open>The two outcomes of a frame\<close>

text \<open>
  The callback leaves in one of two ways. When the lookup throws it returns at once; when
  the lookup succeeds it runs to its end. The next four lemmas give the node and the
  events of either way in closed form.
\<close>

lemma callback_lookup_failed:
  assumes "lookupTransform tf2_buffer (bbox_target_frame this) (frame_id (cloud_header lidar_points)) = Inl ex"
  shows "fst (lidarPointsCallback od tf2_buffer P lidar_points this) = this"
  using assms by (simp add: lidarPointsCallback_def Let_def)

lemma callback_completed:
  assumes "lookupTransform tf2_buffer (bbox_target_frame this) (frame_id (cloud_header lidar_points)) = Inr t"
  shows "fst (lidarPointsCallback od tf2_buffer P lidar_points this) =
     this\<lparr>obstacle_id := (next_obstacle_id ^^ length (frame_clusters od P lidar_points)) (obstacle_id this),
          prev_boxes := frame_boxes od P lidar_points this, curr_boxes := []\<rparr>"
  using assms by (simp add: lidarPointsCallback_def Let_def split_beta construct_boxes_fst frame_boxes_def frame_clusters_def)

lemma callback_events_failed:
  assumes "lookupTransform tf2_buffer (bbox_target_frame this)
             (frame_id (cloud_header lidar_points)) = Inl ex"
  shows "snd (lidarPointsCallback od tf2_buffer P lidar_points this) =
     [ROS_INFO ''lidar points recieved'',
      Call_filterCloud (cloud_data lidar_points) (VOXEL_GRID_SIZE P) (ROI_MIN_POINT P)
        (ROI_MAX_POINT P),
      Call_segmentPlane
        (filterCloud od (cloud_data lidar_points) (VOXEL_GRID_SIZE P) (ROI_MIN_POINT P)
           (ROI_MAX_POINT P))
        30 (GROUND_THRESH P),
      Call_clustering (fst (frame_segments od P lidar_points)) (CLUSTER_THRESH P)
        (CLUSTER_MIN_SIZE P) (CLUSTER_MAX_SIZE P),
      Publish_cloud_ground
        \<lparr>cloud_header = cloud_header lidar_points,
         cloud_data = snd (frame_segments od P lidar_points)\<rparr>,
      Publish_cloud_clusters
        \<lparr>cloud_header = cloud_header lidar_points,
         cloud_data = fst (frame_segments od P lidar_points)\<rparr>,
      Call_lookupTransform (bbox_target_frame this) (frame_id (cloud_header lidar_points)),
      ROS_WARN (what ex)]"
  using assms
  by (simp add: lidarPointsCallback_def Let_def publishClouds_def frame_segments_def)

lemma callback_events_completed:
  assumes "lookupTransform tf2_buffer (bbox_target_frame this)
             (frame_id (cloud_header lidar_points)) = Inr t"
  shows "snd (lidarPointsCallback od tf2_buffer P lidar_points this) =
     [ROS_INFO ''lidar points recieved'',
      Call_filterCloud (cloud_data lidar_points) (VOXEL_GRID_SIZE P) (ROI_MIN_POINT P)
        (ROI_MAX_POINT P),
      Call_segmentPlane
        (filterCloud od (cloud_data lidar_points) (VOXEL_GRID_SIZE P) (ROI_MIN_POINT P)
           (ROI_MAX_POINT P))
        30 (GROUND_THRESH P),
      Call_clustering (fst (frame_segments od P lidar_points)) (CLUSTER_THRESH P)
        (CLUSTER_MIN_SIZE P) (CLUSTER_MAX_SIZE P),
      Publish_cloud_ground
        \<lparr>cloud_header = cloud_header lidar_points,
         cloud_data = snd (frame_segments od P lidar_points)\<rparr>,
      Publish_cloud_clusters
        \<lparr>cloud_header = cloud_header lidar_points,
         cloud_data = fst (frame_segments od P lidar_points)\<rparr>,
      Call_lookupTransform (bbox_target_frame this) (frame_id (cloud_header lidar_points))]
     @ map (\<lambda>k. fit_call P (frame_clusters od P lidar_points ! k)
                 ((next_obstacle_id ^^ k) (obstacle_id this)))
         [0..<length (frame_clusters od P lidar_points)]
     @ (if USE_TRACKING P
        then [Call_obstacleTracking (prev_boxes this)
                (curr_boxes this
                 @ fitted_boxes od P (frame_clusters od P lidar_points) (obstacle_id this))
                (DISPLACEMENT_THRESH P) (IOU_THRESH P)]
        else [])
     @ [Publish_jsk_bboxes
          \<lparr>jsk_array_header = (cloud_header lidar_points)\<lparr>frame_id := bbox_target_frame this\<rparr>,
           jsk_boxes =
             map (\<lambda>box. transformJskBbox this box (doTransform tf2_buffer (box_pose box) t))
               (frame_boxes od P lidar_points this)\<rparr>,
        Publish_autoware_objects
          \<lparr>aw_array_header = (cloud_header lidar_points)\<lparr>frame_id := bbox_target_frame this\<rparr>,
           aw_objects =
             map (\<lambda>box. transformAutowareObject this box
                          (doTransform tf2_buffer (box_pose box) t))
               (frame_boxes od P lidar_points this)\<rparr>]"
  using assms
  by (simp add: lidarPointsCallback_def Let_def split_beta publishClouds_def frame_segments_def
      frame_clusters_def frame_boxes_def construct_boxes_fst construct_boxes_snd comp_def
      transformJskBbox_def transformAutowareObject_def del: upt_Suc)

text \<open>Reading the events.\<close>

lemma published_jsk_boxes_append:
  "published_jsk_boxes (es @ fs) = published_jsk_boxes es @ published_jsk_boxes fs"
  by (induction es rule: published_jsk_boxes.induct) simp_all

lemma published_autoware_objects_append:
  "published_autoware_objects (es @ fs) =
     published_autoware_objects es @ published_autoware_objects fs"
  by (induction es rule: published_autoware_objects.induct) simp_all

lemma segmentation_budgets_append:
  "segmentation_budgets (es @ fs) = segmentation_budgets es @ segmentation_budgets fs"
  by (induction es rule: segmentation_budgets.induct) simp_all

lemma fit_calls_publish_nothing:
  "published_jsk_boxes (map (\<lambda>k. fit_call P (f k) (g k)) ks) = []
   \<and> published_autoware_objects (map (\<lambda>k. fit_call P (f k) (g k)) ks) = []
   \<and> filter is_tracking_call (map (\<lambda>k. fit_call P (f k) (g k)) ks) = []"
  by (cases "USE_PCA_BOX P"; induction ks; simp add: fit_call_def)

lemma fit_calls_no_segmentation:
  "segmentation_budgets (map (\<lambda>k. fit_call P (f k) (g k)) ks) = []"
  by (cases "USE_PCA_BOX P"; induction ks; simp add: fit_call_def)

lemma fit_calls_kept:
  "filter is_fit_call (map (\<lambda>k. fit_call P (f k) (g k)) ks)
     = map (\<lambda>k. fit_call P (f k) (g k)) ks"
  by (cases "USE_PCA_BOX P"; induction ks; simp add: fit_call_def)

text \<open>
  The current boxes are empty between the callbacks: the constructor leaves them empty,
  a frame without transform does not touch them and a completed frame clears them.
\<close>

lemma deliver_curr_boxes_empty:
  "curr_boxes (node s) = [] \<Longrightarrow> curr_boxes (node (deliver to_float od s i)) = []"
proof (cases i)
  case (Reconfigure config level)
  assume "curr_boxes (node s) = []"
  then show ?thesis using Reconfigure by simp
next
  case (LidarPoints tf2_buffer lidar_points)
  assume empty: "curr_boxes (node s) = []"
  show ?thesis
  proof (cases "lookupTransform tf2_buffer (bbox_target_frame (node s))
                  (frame_id (cloud_header lidar_points))")
    case (Inl ex)
    then show ?thesis using LidarPoints empty by (simp add: callback_lookup_failed)
  next
    case (Inr t)
    then show ?thesis using LidarPoints by (simp add: callback_completed)
  qed
qed

lemma spin_curr_boxes_empty:
  "curr_boxes (node s) = [] \<Longrightarrow> curr_boxes (node (spin to_float od s inputs)) = []"
  unfolding spin_def
  by (induction inputs arbitrary: s) (simp_all add: deliver_curr_boxes_empty)

text \<open>The example frame.\<close>

lemma example_frame_segments:
  "frame_segments example_detector example_parameters example_points
     = ([(1, 2, 3), (5, 6, 2)], [(0, 0, 0)])"
  by (simp add: frame_segments_def example_detector_def example_parameters_def
      example_points_def)

lemma example_frame_boxes:
  "frame_boxes example_detector example_parameters example_points example_node
     = [\<lparr>box_id = 2, position = Vector3f 1 2 3, dimension = Vector3f 1 2 4,
          quaternion = Quaternionf (1 / 2) (1 / 10) (7 / 10) (1 / 2)\<rparr>,
        \<lparr>box_id = 5, position = Vector3f 5 6 2, dimension = Vector3f 1 2 4,
          quaternion = Quaternionf (1 / 2) (1 / 10) (7 / 10) (1 / 2)\<rparr>]"
  by (simp add: frame_boxes_def frame_clusters_def example_detector_def example_parameters_def
      example_points_def example_node_def fit_def example_fit_def example_tracking_def
      next_obstacle_id_def SIZE_MAX_def)

lemma example_frame_clusters:
  "frame_clusters example_detector example_parameters example_points
     = [[(1, 2, 3)], [(5, 6, 2)]]"
  by (simp add: frame_clusters_def example_detector_def example_parameters_def
      example_points_def)

subsection \<open>A frame without transform\<close>

text \<open>
  Claim C1. When the lookup of the coordinate transform throws, the callback returns with
  the node exactly as it was (the previous boxes, the current boxes and the counter
  included), no box message is published, and the last thing the callback does is the
  warning of its catch block: the exception ends there.
\<close>

theorem lookup_failure_skips_frame:
  assumes "lookupTransform tf2_buffer (bbox_target_frame this)
             (frame_id (cloud_header lidar_points)) = Inl ex"
  shows "fst (lidarPointsCallback od tf2_buffer P lidar_points this) = this
       \<and> filter is_box_publication (snd (lidarPointsCallback od tf2_buffer P lidar_points this)) = []
       \<and> last (snd (lidarPointsCallback od tf2_buffer P lidar_points this)) = ROS_WARN (what ex)"
  using assms by (simp add: lidarPointsCallback_def Let_def publishClouds_def)

theorem lookup_failure_skips_frame_witness:
  "lookupTransform tf2_unavailable (bbox_target_frame example_node)
     (frame_id (cloud_header example_points)) = Inl (TransformException ''no transform'')
   \<and> prev_boxes (fst (lidarPointsCallback example_detector tf2_unavailable example_parameters
        example_points example_node)) = [example_fit 1 [(1, 2, 3)] 2]
   \<and> obstacle_id (fst (lidarPointsCallback example_detector tf2_unavailable example_parameters
        example_points example_node)) = 4
   \<and> filter is_box_publication (snd (lidarPointsCallback example_detector tf2_unavailable
        example_parameters example_points example_node)) = []
   \<and> last (snd (lidarPointsCallback example_detector tf2_unavailable example_parameters
        example_points example_node)) = ROS_WARN ''no transform''"
  using lookup_failure_skips_frame [of tf2_unavailable example_node example_points
      "TransformException ''no transform''" example_detector example_parameters]
  by (simp add: tf2_unavailable_def example_node_def)

subsection \<open>A completed frame\<close>

text \<open>
  Claim C2. When the lookup succeeds the callback runs to its end, and then the previous
  boxes are exactly the current boxes of the frame (after the tracking step, when
  tracking is on) and the current boxes are empty.
\<close>

theorem completed_frame_swaps_boxes:
  assumes "lookupTransform tf2_buffer (bbox_target_frame this)
             (frame_id (cloud_header lidar_points)) = Inr transform_stamped"
  shows "prev_boxes (fst (lidarPointsCallback od tf2_buffer P lidar_points this))
           = frame_boxes od P lidar_points this
       \<and> curr_boxes (fst (lidarPointsCallback od tf2_buffer P lidar_points this)) = []"
  using callback_completed [OF assms, of od P] by simp

theorem completed_frame_swaps_boxes_witness:
  "lookupTransform tf2_available (bbox_target_frame example_node)
     (frame_id (cloud_header example_points)) = Inr example_transform
   \<and> map box_id (prev_boxes (fst (lidarPointsCallback example_detector tf2_available
        example_parameters example_points example_node))) = [2, 5]
   \<and> curr_boxes (fst (lidarPointsCallback example_detector tf2_available
        example_parameters example_points example_node)) = []"
  using completed_frame_swaps_boxes [of tf2_available example_node example_points
      example_transform example_detector example_parameters]
  by (simp add: tf2_available_def example_frame_boxes)

subsection \<open>Tracking switched off\<close>

lemma unat_id_field: "unat (of_nat n :: 32 word) = n mod 2 ^ 32"
  by (simp add: unat_of_nat)

text \<open>
  Claim C3, as amended. In a frame processed with \<open>USE_TRACKING\<close> false the tracker is
  not called: no tracking call is among the events, and the callback gives the same
  result whatever tracker the detector has. Every box that is published carries the id
  that the fitter gave it, reduced modulo \<open>2 ^ 32\<close> by the 32-bit id field of the message:
  the ids in both messages are those of the fitted boxes, in order (and no box is
  published when the transform is missing). The current boxes are empty when a frame
  starts (\<open>spin_curr_boxes_empty\<close>).
\<close>

theorem tracking_disabled_publishes_fitted_ids:
  assumes "\<not> USE_TRACKING P" and "curr_boxes this = []"
  shows "filter is_tracking_call (snd (lidarPointsCallback od tf2_buffer P lidar_points this)) = []
     \<and> lidarPointsCallback (od\<lparr>obstacleTracking := other\<rparr>) tf2_buffer P lidar_points this
         = lidarPointsCallback od tf2_buffer P lidar_points this
     \<and> map (\<lambda>m. unat (jsk_label m))
         (published_jsk_boxes (snd (lidarPointsCallback od tf2_buffer P lidar_points this)))
         = (case lookupTransform tf2_buffer (bbox_target_frame this)
                  (frame_id (cloud_header lidar_points)) of
              Inl ex \<Rightarrow> []
            | Inr t \<Rightarrow> map (\<lambda>box. box_id box mod 2 ^ 32)
                (fitted_boxes od P (frame_clusters od P lidar_points) (obstacle_id this)))
     \<and> map (\<lambda>m. unat (aw_id m))
         (published_autoware_objects
            (snd (lidarPointsCallback od tf2_buffer P lidar_points this)))
         = (case lookupTransform tf2_buffer (bbox_target_frame this)
                  (frame_id (cloud_header lidar_points)) of
              Inl ex \<Rightarrow> []
            | Inr t \<Rightarrow> map (\<lambda>box. box_id box mod 2 ^ 32)
                (fitted_boxes od P (frame_clusters od P lidar_points) (obstacle_id this)))"
proof (cases "lookupTransform tf2_buffer (bbox_target_frame this)
                (frame_id (cloud_header lidar_points))")
  case (Inl ex)
  have same: "lidarPointsCallback (od\<lparr>obstacleTracking := other\<rparr>) tf2_buffer P lidar_points this
         = lidarPointsCallback od tf2_buffer P lidar_points this"
    using Inl by (simp add: lidarPointsCallback_def Let_def)
  show ?thesis
    using Inl same by (simp add: callback_events_failed [OF Inl])
next
  case (Inr t)
  have same: "lidarPointsCallback (od\<lparr>obstacleTracking := other\<rparr>) tf2_buffer P lidar_points this
         = lidarPointsCallback od tf2_buffer P lidar_points this"
    using Inr assms(1)
    by (simp add: lidarPointsCallback_def Let_def split_beta construct_boxes_tracker_update)
  have boxes: "frame_boxes od P lidar_points this
         = fitted_boxes od P (frame_clusters od P lidar_points) (obstacle_id this)"
    using assms by (simp add: frame_boxes_def)
  show ?thesis
    using Inr same assms(1)
    by (simp add: callback_events_completed [OF Inr] boxes published_jsk_boxes_append
        published_autoware_objects_append fit_calls_publish_nothing comp_def
        transformJskBbox_def transformAutowareObject_def unat_id_field del: upt_Suc)
qed

theorem tracking_disabled_publishes_fitted_ids_witness:
  "\<not> USE_TRACKING (example_parameters\<lparr>USE_TRACKING := False\<rparr>)
   \<and> curr_boxes example_node = []
   \<and> filter is_tracking_call
        (snd (lidarPointsCallback example_detector tf2_available
           (example_parameters\<lparr>USE_TRACKING := False\<rparr>) example_points example_node)) = []
   \<and> map (\<lambda>m. unat (jsk_label m)) (published_jsk_boxes
        (snd (lidarPointsCallback example_detector tf2_available
           (example_parameters\<lparr>USE_TRACKING := False\<rparr>) example_points example_node))) = [4, 5]
   \<and> map (\<lambda>m. unat (aw_id m)) (published_autoware_objects
        (snd (lidarPointsCallback example_detector tf2_available
           (example_parameters\<lparr>USE_TRACKING := False\<rparr>) example_points example_node))) = [4, 5]"
proof -
  have off: "\<not> USE_TRACKING (example_parameters\<lparr>USE_TRACKING := False\<rparr>)" by simp
  have empty: "curr_boxes example_node = []" by (simp add: example_node_def)
  have ids: "map box_id
       (fitted_boxes example_detector (example_parameters\<lparr>USE_TRACKING := False\<rparr>)
          (frame_clusters example_detector (example_parameters\<lparr>USE_TRACKING := False\<rparr>)
             example_points)
          (obstacle_id example_node)) = [4, 5]"
    by (simp add: frame_clusters_def example_detector_def example_parameters_def
        example_points_def example_node_def fit_def example_fit_def next_obstacle_id_def
        SIZE_MAX_def)
  have reduced: "map (\<lambda>box. box_id box mod 2 ^ 32) bs = map (\<lambda>n. n mod 2 ^ 32) (map box_id bs)"
    for bs :: "Box list"
    by simp
  show ?thesis
    using tracking_disabled_publishes_fitted_ids [OF off empty, of example_detector
        tf2_available example_points] off empty
    unfolding reduced ids
    by (simp add: tf2_available_def)
qed

text \<open>
  Claim C3 as stated fails when an id does not fit into 32 bits. With the counter at
  \<open>2 ^ 32\<close> and tracking switched off, the two boxes of the example frame are created
  with the ids \<open>2 ^ 32\<close> and \<open>2 ^ 32 + 1\<close> and published with the ids 0 and 1.
\<close>

theorem tracking_disabled_ids_above_32_bits:
  "\<not> USE_TRACKING (example_parameters\<lparr>USE_TRACKING := False\<rparr>)
   \<and> map box_id
        (fitted_boxes example_detector (example_parameters\<lparr>USE_TRACKING := False\<rparr>)
           (frame_clusters example_detector (example_parameters\<lparr>USE_TRACKING := False\<rparr>)
              example_points)
           (obstacle_id node_at_32_bits)) = [4294967296, 4294967297]
   \<and> map box_id (prev_boxes (fst (lidarPointsCallback example_detector tf2_available
        (example_parameters\<lparr>USE_TRACKING := False\<rparr>) example_points node_at_32_bits)))
       = [4294967296, 4294967297]
   \<and> map (\<lambda>m. unat (jsk_label m)) (published_jsk_boxes
        (snd (lidarPointsCallback example_detector tf2_available
           (example_parameters\<lparr>USE_TRACKING := False\<rparr>) example_points node_at_32_bits)))
       = [0, 1]
   \<and> map (\<lambda>m. unat (aw_id m)) (published_autoware_objects
        (snd (lidarPointsCallback example_detector tf2_available
           (example_parameters\<lparr>USE_TRACKING := False\<rparr>) example_points node_at_32_bits)))
       = [0, 1]"
proof -
  let ?P = "example_parameters\<lparr>USE_TRACKING := False\<rparr>"
  have up: "lookupTransform tf2_available (bbox_target_frame node_at_32_bits)
     (frame_id (cloud_header example_points)) = Inr example_transform"
    by (simp add: tf2_available_def)
  have clusters: "frame_clusters example_detector ?P example_points
      = [[(1, 2, 3)], [(5, 6, 2)]]"
    by (simp add: frame_clusters_def example_detector_def example_parameters_def
        example_points_def)
  have ids: "map box_id (fitted_boxes example_detector ?P
      (frame_clusters example_detector ?P example_points) (obstacle_id node_at_32_bits))
      = [4294967296, 4294967297]"
    unfolding clusters
    by (simp add: example_detector_def example_parameters_def node_at_32_bits_def fit_def
        example_fit_def next_obstacle_id_def SIZE_MAX_def)
  have boxes: "frame_boxes example_detector ?P example_points node_at_32_bits
      = fitted_boxes example_detector ?P (frame_clusters example_detector ?P example_points)
          (obstacle_id node_at_32_bits)"
    by (simp add: frame_boxes_def node_at_32_bits_def)
  have previous: "prev_boxes (fst (lidarPointsCallback example_detector tf2_available ?P
      example_points node_at_32_bits))
      = frame_boxes example_detector ?P example_points node_at_32_bits"
    by (simp add: callback_completed [OF up])
  have jsk: "map (\<lambda>m. unat (jsk_label m)) (published_jsk_boxes
        (snd (lidarPointsCallback example_detector tf2_available ?P example_points
           node_at_32_bits)))
      = map (\<lambda>n. n mod 2 ^ 32) (map box_id (frame_boxes example_detector ?P example_points
          node_at_32_bits))"
    by (simp add: callback_events_completed [OF up] published_jsk_boxes_append
        fit_calls_publish_nothing comp_def transformJskBbox_def unat_id_field del: upt_Suc)
  have aw: "map (\<lambda>m. unat (aw_id m)) (published_autoware_objects
        (snd (lidarPointsCallback example_detector tf2_available ?P example_points
           node_at_32_bits)))
      = map (\<lambda>n. n mod 2 ^ 32) (map box_id (frame_boxes example_detector ?P example_points
          node_at_32_bits))"
    by (simp add: callback_events_completed [OF up] published_autoware_objects_append
        fit_calls_publish_nothing comp_def transformAutowareObject_def unat_id_field
        del: upt_Suc)
  show ?thesis
    unfolding jsk aw previous boxes ids by simp
qed

subsection \<open>The id counter\<close>

lemma SIZE_MAX_minus_one: "SIZE_MAX = - 1"
  by (simp add: SIZE_MAX_def)

lemma next_obstacle_id_unat:
  "unat (next_obstacle_id i) = (if i = SIZE_MAX then 0 else unat i + 1)"
proof (cases "i = SIZE_MAX")
  case True
  then show ?thesis by (simp add: next_obstacle_id_def)
next
  case False
  then have less: "i < SIZE_MAX"
    by (simp add: SIZE_MAX_minus_one word_order.not_eq_extremum)
  then have "unat i < unat SIZE_MAX" by (simp add: word_less_nat_alt)
  then have "unat i + 1 < 2 ^ 64" by (simp add: SIZE_MAX_def)
  then have "unat (i + 1) = unat i + 1"
    by (simp add: unat_word_ariths)
  then show ?thesis using False less by (simp add: next_obstacle_id_def)
qed

text \<open>
  Claim C4. One step of the counter adds exactly one, as a natural number and so without
  wrapping, unless the counter is at \<open>SIZE_MAX\<close>, where the step sets it to 0. The loop
  appends one box for each cluster, fitted with the counter value of its round, and
  leaves the counter advanced by as many steps as it has appended boxes. A frame without
  transform calls no fitter, creates no box and leaves the counter alone; a frame with a
  transform hands the boxes of the loop on (to the tracker, or as they are to the
  previous boxes) and has advanced the counter by one step for each of them.
\<close>

theorem obstacle_id_counts_boxes_and_resets:
  "unat (next_obstacle_id i) = (if i = SIZE_MAX then 0 else unat i + 1)
   \<and> unat SIZE_MAX = 2 ^ 64 - 1
   \<and> curr_boxes (fst (construct_boxes od P clusters this)) =
       curr_boxes this
       @ map (\<lambda>k. if USE_PCA_BOX P
                   then pcaBoundingBox od (clusters ! k)
                          ((next_obstacle_id ^^ k) (obstacle_id this))
                   else axisAlignedBoundingBox od (clusters ! k)
                          ((next_obstacle_id ^^ k) (obstacle_id this)))
           [0..<length clusters]
   \<and> obstacle_id (fst (construct_boxes od P clusters this)) =
       (next_obstacle_id
          ^^ (length (curr_boxes (fst (construct_boxes od P clusters this)))
              - length (curr_boxes this)))
         (obstacle_id this)
   \<and> (\<forall>ex. lookupTransform tf2_buffer (bbox_target_frame this)
               (frame_id (cloud_header lidar_points)) = Inl ex \<longrightarrow>
          filter is_fit_call (snd (lidarPointsCallback od tf2_buffer P lidar_points this)) = []
          \<and> curr_boxes (fst (lidarPointsCallback od tf2_buffer P lidar_points this))
              = curr_boxes this
          \<and> prev_boxes (fst (lidarPointsCallback od tf2_buffer P lidar_points this))
              = prev_boxes this
          \<and> obstacle_id (fst (lidarPointsCallback od tf2_buffer P lidar_points this))
              = obstacle_id this)
   \<and> (\<forall>t. lookupTransform tf2_buffer (bbox_target_frame this)
              (frame_id (cloud_header lidar_points)) = Inr t \<longrightarrow>
          prev_boxes (fst (lidarPointsCallback od tf2_buffer P lidar_points this)) =
            (if USE_TRACKING P
             then obstacleTracking od (prev_boxes this)
                    (curr_boxes this
                     @ map (\<lambda>k. if USE_PCA_BOX P
                                 then pcaBoundingBox od (frame_clusters od P lidar_points ! k)
                                        ((next_obstacle_id ^^ k) (obstacle_id this))
                                 else axisAlignedBoundingBox od
                                        (frame_clusters od P lidar_points ! k)
                                        ((next_obstacle_id ^^ k) (obstacle_id this)))
                         [0..<length (frame_clusters od P lidar_points)])
                    (DISPLACEMENT_THRESH P) (IOU_THRESH P)
             else curr_boxes this
                  @ map (\<lambda>k. if USE_PCA_BOX P
                              then pcaBoundingBox od (frame_clusters od P lidar_points ! k)
                                     ((next_obstacle_id ^^ k) (obstacle_id this))
                              else axisAlignedBoundingBox od
                                     (frame_clusters od P lidar_points ! k)
                                     ((next_obstacle_id ^^ k) (obstacle_id this)))
                      [0..<length (frame_clusters od P lidar_points)])
          \<and> length (filter is_fit_call
                (snd (lidarPointsCallback od tf2_buffer P lidar_points this)))
              = length (frame_clusters od P lidar_points)
          \<and> obstacle_id (fst (lidarPointsCallback od tf2_buffer P lidar_points this))
              = (next_obstacle_id ^^ length (frame_clusters od P lidar_points))
                  (obstacle_id this))"
proof -
  have max: "unat SIZE_MAX = 2 ^ 64 - 1"
    by (simp add: SIZE_MAX_def)
  have boxes: "fitted_boxes od P cs c
      = map (\<lambda>k. if USE_PCA_BOX P
                  then pcaBoundingBox od (cs ! k) ((next_obstacle_id ^^ k) c)
                  else axisAlignedBoundingBox od (cs ! k) ((next_obstacle_id ^^ k) c))
          [0..<length cs]" for cs c
    unfolding fitted_boxes_map by (simp add: fit_def del: upt_Suc)
  have loop: "curr_boxes (fst (construct_boxes od P clusters this)) =
       curr_boxes this
       @ map (\<lambda>k. if USE_PCA_BOX P
                   then pcaBoundingBox od (clusters ! k)
                          ((next_obstacle_id ^^ k) (obstacle_id this))
                   else axisAlignedBoundingBox od (clusters ! k)
                          ((next_obstacle_id ^^ k) (obstacle_id this)))
           [0..<length clusters]"
    by (simp add: construct_boxes_fst boxes del: upt_Suc)
  have counter: "obstacle_id (fst (construct_boxes od P clusters this)) =
       (next_obstacle_id
          ^^ (length (curr_boxes (fst (construct_boxes od P clusters this)))
              - length (curr_boxes this)))
         (obstacle_id this)"
    by (simp add: construct_boxes_fst fitted_boxes_length)
  have failed: "filter is_fit_call
          (snd (lidarPointsCallback od tf2_buffer P lidar_points this)) = []
        \<and> curr_boxes (fst (lidarPointsCallback od tf2_buffer P lidar_points this))
            = curr_boxes this
        \<and> prev_boxes (fst (lidarPointsCallback od tf2_buffer P lidar_points this))
            = prev_boxes this
        \<and> obstacle_id (fst (lidarPointsCallback od tf2_buffer P lidar_points this))
            = obstacle_id this"
    if "lookupTransform tf2_buffer (bbox_target_frame this)
          (frame_id (cloud_header lidar_points)) = Inl ex" for ex
    by (simp add: callback_events_failed [OF that] callback_lookup_failed [OF that])
  have completed: "prev_boxes (fst (lidarPointsCallback od tf2_buffer P lidar_points this)) =
            (if USE_TRACKING P
             then obstacleTracking od (prev_boxes this)
                    (curr_boxes this
                     @ map (\<lambda>k. if USE_PCA_BOX P
                                 then pcaBoundingBox od (frame_clusters od P lidar_points ! k)
                                        ((next_obstacle_id ^^ k) (obstacle_id this))
                                 else axisAlignedBoundingBox od
                                        (frame_clusters od P lidar_points ! k)
                                        ((next_obstacle_id ^^ k) (obstacle_id this)))
                         [0..<length (frame_clusters od P lidar_points)])
                    (DISPLACEMENT_THRESH P) (IOU_THRESH P)
             else curr_boxes this
                  @ map (\<lambda>k. if USE_PCA_BOX P
                              then pcaBoundingBox od (frame_clusters od P lidar_points ! k)
                                     ((next_obstacle_id ^^ k) (obstacle_id this))
                              else axisAlignedBoundingBox od
                                     (frame_clusters od P lidar_points ! k)
                                     ((next_obstacle_id ^^ k) (obstacle_id this)))
                      [0..<length (frame_clusters od P lidar_points)])
          \<and> length (filter is_fit_call
                (snd (lidarPointsCallback od tf2_buffer P lidar_points this)))
              = length (frame_clusters od P lidar_points)
          \<and> obstacle_id (fst (lidarPointsCallback od tf2_buffer P lidar_points this))
              = (next_obstacle_id ^^ length (frame_clusters od P lidar_points))
                  (obstacle_id this)"
    if "lookupTransform tf2_buffer (bbox_target_frame this)
          (frame_id (cloud_header lidar_points)) = Inr t" for t
    by (simp add: callback_events_completed [OF that] callback_completed [OF that]
        fit_calls_kept frame_boxes_def Let_def boxes del: upt_Suc)
  show ?thesis
    using next_obstacle_id_unat [of i] max loop counter failed completed by blast
qed

theorem obstacle_id_counts_boxes_and_resets_witness:
  "unat (next_obstacle_id 4) = 5 \<and> unat (next_obstacle_id SIZE_MAX) = 0
   \<and> map box_id (curr_boxes (fst (construct_boxes example_detector example_parameters
        [[(1, 2, 3)], [(5, 6, 2)]] (example_node\<lparr>obstacle_id := SIZE_MAX\<rparr>))))
       = [18446744073709551615, 0]
   \<and> obstacle_id (fst (construct_boxes example_detector example_parameters
        [[(1, 2, 3)], [(5, 6, 2)]] (example_node\<lparr>obstacle_id := SIZE_MAX\<rparr>))) = 1
   \<and> lookupTransform tf2_unavailable (bbox_target_frame example_node)
       (frame_id (cloud_header example_points)) = Inl (TransformException ''no transform'')
   \<and> obstacle_id (fst (lidarPointsCallback example_detector tf2_unavailable
        example_parameters example_points example_node)) = 4
   \<and> lookupTransform tf2_available (bbox_target_frame example_node)
       (frame_id (cloud_header example_points)) = Inr example_transform
   \<and> length (filter is_fit_call (snd (lidarPointsCallback example_detector tf2_available
        example_parameters example_points example_node))) = 2
   \<and> obstacle_id (fst (lidarPointsCallback example_detector tf2_available
        example_parameters example_points example_node)) = 6"
proof -
  have down: "lookupTransform tf2_unavailable (bbox_target_frame example_node)
       (frame_id (cloud_header example_points)) = Inl (TransformException ''no transform'')"
    by (simp add: tf2_unavailable_def)
  have up: "lookupTransform tf2_available (bbox_target_frame example_node)
       (frame_id (cloud_header example_points)) = Inr example_transform"
    by (simp add: tf2_available_def)
  have two: "[0..<length [[(1::real, 2::real, 3::real)], [(5, 6, 2)]]] = [0, 1]"
    by (simp add: upt_conv_Cons)
  have steps: "next_obstacle_id 4 = 5 \<and> next_obstacle_id 5 = 6
      \<and> next_obstacle_id SIZE_MAX = 0 \<and> next_obstacle_id 0 = 1"
    by (simp add: next_obstacle_id_def SIZE_MAX_def)
  have start: "obstacle_id example_node = 4 \<and> curr_boxes example_node = []
      \<and> \<not> USE_PCA_BOX example_parameters"
    by (simp add: example_node_def example_parameters_def)
  have fitter: "box_id (axisAlignedBoundingBox example_detector c i) = unat i" for c i
    by (simp add: example_detector_def example_fit_def)
  note wrap = obstacle_id_counts_boxes_and_resets [of SIZE_MAX example_detector
      example_parameters "[[(1, 2, 3)], [(5, 6, 2)]]" "example_node\<lparr>obstacle_id := SIZE_MAX\<rparr>"
      tf2_unavailable example_points]
  note frame_down = obstacle_id_counts_boxes_and_resets [of 4 example_detector
      example_parameters "[]" example_node tf2_unavailable example_points]
  note frame_up = obstacle_id_counts_boxes_and_resets [of 4 example_detector
      example_parameters "[]" example_node tf2_available example_points]
  have first: "unat (next_obstacle_id 4) = 5 \<and> unat (next_obstacle_id SIZE_MAX) = 0"
    using wrap frame_down by (simp add: SIZE_MAX_def)
  have loop: "map box_id (curr_boxes (fst (construct_boxes example_detector example_parameters
        [[(1, 2, 3)], [(5, 6, 2)]] (example_node\<lparr>obstacle_id := SIZE_MAX\<rparr>))))
       = [18446744073709551615, 0]
     \<and> obstacle_id (fst (construct_boxes example_detector example_parameters
        [[(1, 2, 3)], [(5, 6, 2)]] (example_node\<lparr>obstacle_id := SIZE_MAX\<rparr>))) = 1"
    using wrap start steps unfolding two
    by (simp add: fitter SIZE_MAX_def)
  have failed: "obstacle_id (fst (lidarPointsCallback example_detector tf2_unavailable
        example_parameters example_points example_node)) = 4"
    using frame_down down start by simp
  have completed: "length (filter is_fit_call (snd (lidarPointsCallback example_detector
        tf2_available example_parameters example_points example_node))) = 2
     \<and> obstacle_id (fst (lidarPointsCallback example_detector tf2_available
        example_parameters example_points example_node)) = 6"
    using frame_up up start steps by (simp add: example_frame_clusters)
  show ?thesis
    using first loop down failed up completed by simp
qed

subsection \<open>Loading a configuration\<close>

text \<open>
  Claim C5, as amended. The parameter callback rejects nothing. It takes over every
  value of the snapshot, valid or not: the two flags and the two cluster sizes as they
  are, the thresholds and corners converted from \<open>double\<close> to \<open>float\<close>. A smallest
  cluster size above the largest arrives in the parameters as such, and the next frame
  hands the values that were loaded to the segmentation and to the clustering.
\<close>

theorem configuration_is_accepted_unchecked:
  "USE_PCA_BOX (dynamicParamCallback to_float config level P) = use_pca_box config
   \<and> USE_TRACKING (dynamicParamCallback to_float config level P) = use_tracking config
   \<and> VOXEL_GRID_SIZE (dynamicParamCallback to_float config level P)
        = to_float (voxel_grid_size config)
   \<and> ROI_MAX_POINT (dynamicParamCallback to_float config level P)
        = Vector4f (to_float (roi_max_x config)) (to_float (roi_max_y config))
            (to_float (roi_max_z config)) (to_float 1)
   \<and> ROI_MIN_POINT (dynamicParamCallback to_float config level P)
        = Vector4f (to_float (roi_min_x config)) (to_float (roi_min_y config))
            (to_float (roi_min_z config)) (to_float 1)
   \<and> GROUND_THRESH (dynamicParamCallback to_float config level P)
        = to_float (ground_threshold config)
   \<and> CLUSTER_THRESH (dynamicParamCallback to_float config level P)
        = to_float (cluster_threshold config)
   \<and> CLUSTER_MAX_SIZE (dynamicParamCallback to_float config level P) = cluster_max_size config
   \<and> CLUSTER_MIN_SIZE (dynamicParamCallback to_float config level P) = cluster_min_size config
   \<and> DISPLACEMENT_THRESH (dynamicParamCallback to_float config level P)
        = to_float (displacement_threshold config)
   \<and> IOU_THRESH (dynamicParamCallback to_float config level P)
        = to_float (iou_threshold config)
   \<and> (cluster_max_size config < cluster_min_size config \<longrightarrow>
        CLUSTER_MAX_SIZE (dynamicParamCallback to_float config level P)
          < CLUSTER_MIN_SIZE (dynamicParamCallback to_float config level P))
   \<and> snd (lidarPointsCallback od tf2_buffer (dynamicParamCallback to_float config level P)
        lidar_points this) ! 2 =
       Call_segmentPlane
         (filterCloud od (cloud_data lidar_points) (to_float (voxel_grid_size config))
            (Vector4f (to_float (roi_min_x config)) (to_float (roi_min_y config))
               (to_float (roi_min_z config)) (to_float 1))
            (Vector4f (to_float (roi_max_x config)) (to_float (roi_max_y config))
               (to_float (roi_max_z config)) (to_float 1)))
         30 (to_float (ground_threshold config))
   \<and> snd (lidarPointsCallback od tf2_buffer (dynamicParamCallback to_float config level P)
        lidar_points this) ! 3 =
       Call_clustering
         (fst (segmentPlane od
            (filterCloud od (cloud_data lidar_points) (to_float (voxel_grid_size config))
               (Vector4f (to_float (roi_min_x config)) (to_float (roi_min_y config))
                  (to_float (roi_min_z config)) (to_float 1))
               (Vector4f (to_float (roi_max_x config)) (to_float (roi_max_y config))
                  (to_float (roi_max_z config)) (to_float 1)))
            30 (to_float (ground_threshold config))))
         (to_float (cluster_threshold config)) (cluster_min_size config)
         (cluster_max_size config)"
proof (cases "lookupTransform tf2_buffer (bbox_target_frame this)
                (frame_id (cloud_header lidar_points))")
  case (Inl ex)
  show ?thesis
    by (simp add: callback_events_failed [OF Inl] frame_segments_def dynamicParamCallback_def)
next
  case (Inr t)
  show ?thesis
    by (simp add: callback_events_completed [OF Inr] frame_segments_def
        dynamicParamCallback_def del: upt_Suc)
qed

theorem configuration_is_accepted_unchecked_witness:
  "cluster_max_size example_bad_config < cluster_min_size example_bad_config
   \<and> CLUSTER_MAX_SIZE (dynamicParamCallback example_to_float example_bad_config 0
        example_parameters) = 5
   \<and> CLUSTER_MIN_SIZE (dynamicParamCallback example_to_float example_bad_config 0
        example_parameters) = 10
   \<and> GROUND_THRESH (dynamicParamCallback example_to_float example_bad_config 0
        example_parameters) = - 1
   \<and> VOXEL_GRID_SIZE (dynamicParamCallback example_to_float example_bad_config 0
        example_parameters) = 13421773 / 134217728
   \<and> snd (lidarPointsCallback example_detector tf2_available
        (dynamicParamCallback example_to_float example_bad_config 0 example_parameters)
        example_points example_node) ! 3
       = Call_clustering [(1, 2, 3), (0, 0, 0), (5, 6, 2)] 1 10 5"
proof -
  have bad: "cluster_max_size example_bad_config < cluster_min_size example_bad_config"
    by (simp add: example_bad_config_def)
  have carried: "cluster_max_size example_bad_config = 5
      \<and> cluster_min_size example_bad_config = 10
      \<and> example_to_float (ground_threshold example_bad_config) = - 1
      \<and> example_to_float (voxel_grid_size example_bad_config) = 13421773 / 134217728"
    by (simp add: example_bad_config_def example_to_float_def)
  show ?thesis
    using configuration_is_accepted_unchecked [of example_to_float example_bad_config 0
        example_parameters example_detector tf2_available example_points example_node]
      bad carried
    by (simp add: example_bad_config_def example_to_float_def example_detector_def
        example_points_def)
qed

text \<open>
  Claim C5 as stated fails: a snapshot with a negative ground threshold and a smallest
  cluster size above the largest is taken over, and the next frame hands these values to
  the segmentation and to the clustering.
\<close>

theorem invalid_configuration_is_accepted:
  "invalid_config example_bad_config
   \<and> GROUND_THRESH (dynamicParamCallback example_to_float example_bad_config 0
        example_parameters) = - 1
   \<and> CLUSTER_MIN_SIZE (dynamicParamCallback example_to_float example_bad_config 0
        example_parameters) = 10
   \<and> CLUSTER_MAX_SIZE (dynamicParamCallback example_to_float example_bad_config 0
        example_parameters) = 5
   \<and> snd (lidarPointsCallback example_detector tf2_unavailable
        (dynamicParamCallback example_to_float example_bad_config 0 example_parameters)
        example_points example_node) ! 2
       = Call_segmentPlane [(1, 2, 3), (0, 0, 0), (5, 6, 2)] 30 (- 1)
   \<and> snd (lidarPointsCallback example_detector tf2_unavailable
        (dynamicParamCallback example_to_float example_bad_config 0 example_parameters)
        example_points example_node) ! 3
       = Call_clustering [(1, 2, 3), (0, 0, 0), (5, 6, 2)] 1 10 5"
  by (simp add: invalid_config_def example_bad_config_def dynamicParamCallback_def
      example_to_float_def example_parameters_def lidarPointsCallback_def Let_def
      example_detector_def example_points_def tf2_unavailable_def publishClouds_def)

subsection \<open>The order of a frame\<close>

text \<open>
  Claim C6. The events of every frame begin with the filter, the segmentation, the
  clustering and the publication of the ground points and of the obstacle points, in
  this order, and only then comes the lookup of the transform. When the lookup throws,
  nothing but the warning follows: the two point sets of the frame have been published.
\<close>

theorem clouds_published_before_lookup:
  "\<exists>rest.
     snd (lidarPointsCallback od tf2_buffer P lidar_points this) =
       [ROS_INFO ''lidar points recieved'',
        Call_filterCloud (cloud_data lidar_points) (VOXEL_GRID_SIZE P) (ROI_MIN_POINT P)
          (ROI_MAX_POINT P),
        Call_segmentPlane
          (filterCloud od (cloud_data lidar_points) (VOXEL_GRID_SIZE P) (ROI_MIN_POINT P)
             (ROI_MAX_POINT P))
          30 (GROUND_THRESH P),
        Call_clustering (fst (frame_segments od P lidar_points)) (CLUSTER_THRESH P)
          (CLUSTER_MIN_SIZE P) (CLUSTER_MAX_SIZE P),
        Publish_cloud_ground
          \<lparr>cloud_header = cloud_header lidar_points,
           cloud_data = snd (frame_segments od P lidar_points)\<rparr>,
        Publish_cloud_clusters
          \<lparr>cloud_header = cloud_header lidar_points,
           cloud_data = fst (frame_segments od P lidar_points)\<rparr>,
        Call_lookupTransform (bbox_target_frame this) (frame_id (cloud_header lidar_points))]
       @ rest
     \<and> (\<forall>ex. lookupTransform tf2_buffer (bbox_target_frame this)
                 (frame_id (cloud_header lidar_points)) = Inl ex
              \<longrightarrow> rest = [ROS_WARN (what ex)])"
proof (cases "lookupTransform tf2_buffer (bbox_target_frame this)
                (frame_id (cloud_header lidar_points))")
  case (Inl ex)
  show ?thesis
    by (rule exI [of _ "[ROS_WARN (what ex)]"]) (simp add: callback_events_failed [OF Inl] Inl)
next
  case (Inr t)
  show ?thesis
    unfolding callback_events_completed [OF Inr]
    by (rule exI [of _ "_ @ _ @ _"]) (simp add: Inr del: upt_Suc)
qed

theorem clouds_published_before_lookup_witness:
  "lookupTransform tf2_unavailable (bbox_target_frame example_node)
     (frame_id (cloud_header example_points)) = Inl (TransformException ''no transform'')
   \<and> snd (lidarPointsCallback example_detector tf2_unavailable example_parameters
        example_points example_node) =
       [ROS_INFO ''lidar points recieved'',
        Call_filterCloud [(1, 2, 3), (0, 0, 0), (5, 6, 2)] 1 (Vector4f (- 10) (- 10) (- 10) 1)
          (Vector4f 10 10 10 1),
        Call_segmentPlane [(1, 2, 3), (0, 0, 0), (5, 6, 2)] 30 0,
        Call_clustering [(1, 2, 3), (5, 6, 2)] 1 1 100,
        Publish_cloud_ground
          \<lparr>cloud_header = \<lparr>seq = 7, stamp = 100, frame_id = ''lidar''\<rparr>,
           cloud_data = [(0, 0, 0)]\<rparr>,
        Publish_cloud_clusters
          \<lparr>cloud_header = \<lparr>seq = 7, stamp = 100, frame_id = ''lidar''\<rparr>,
           cloud_data = [(1, 2, 3), (5, 6, 2)]\<rparr>,
        Call_lookupTransform ''base_link'' ''lidar'',
        ROS_WARN ''no transform'']"
proof -
  have down: "lookupTransform tf2_unavailable (bbox_target_frame example_node)
     (frame_id (cloud_header example_points)) = Inl (TransformException ''no transform'')"
    by (simp add: tf2_unavailable_def)
  from clouds_published_before_lookup [of example_detector tf2_unavailable example_parameters
      example_points example_node]
  obtain rest where
    "snd (lidarPointsCallback example_detector tf2_unavailable example_parameters
        example_points example_node) =
       [ROS_INFO ''lidar points recieved'',
        Call_filterCloud (cloud_data example_points) (VOXEL_GRID_SIZE example_parameters)
          (ROI_MIN_POINT example_parameters) (ROI_MAX_POINT example_parameters),
        Call_segmentPlane
          (filterCloud example_detector (cloud_data example_points)
             (VOXEL_GRID_SIZE example_parameters) (ROI_MIN_POINT example_parameters)
             (ROI_MAX_POINT example_parameters))
          30 (GROUND_THRESH example_parameters),
        Call_clustering (fst (frame_segments example_detector example_parameters example_points))
          (CLUSTER_THRESH example_parameters) (CLUSTER_MIN_SIZE example_parameters)
          (CLUSTER_MAX_SIZE example_parameters),
        Publish_cloud_ground
          \<lparr>cloud_header = cloud_header example_points,
           cloud_data = snd (frame_segments example_detector example_parameters example_points)\<rparr>,
        Publish_cloud_clusters
          \<lparr>cloud_header = cloud_header example_points,
           cloud_data = fst (frame_segments example_detector example_parameters example_points)\<rparr>,
        Call_lookupTransform (bbox_target_frame example_node)
          (frame_id (cloud_header example_points))]
       @ rest"
    and "rest = [ROS_WARN (what (TransformException ''no transform''))]"
    using down by blast
  then show ?thesis
    using down unfolding example_frame_segments
    by (simp add: example_detector_def example_parameters_def example_points_def
        example_node_def)
qed

subsection \<open>One box for each cluster\<close>

text \<open>
  Claim C8, as amended. In a frame that has its transform the fitter is called once for
  each cluster of the frame, in the order of the clusters: the principal-axis fitter when
  \<open>USE_PCA_BOX\<close> is true and the axis-aligned fitter otherwise, the k-th cluster with the
  counter value reached after k steps. The boxes that these calls return are appended
  to the current boxes of the node, one for each cluster and in the same order: this is
  the box set that the tracker receives when tracking is on, and the box set that
  becomes the previous one when it is off.
\<close>

theorem one_box_per_cluster_of_completed_frame:
  assumes "lookupTransform tf2_buffer (bbox_target_frame this)
             (frame_id (cloud_header lidar_points)) = Inr transform_stamped"
  shows "filter is_fit_call (snd (lidarPointsCallback od tf2_buffer P lidar_points this)) =
       map (\<lambda>k. if USE_PCA_BOX P
                 then Call_pcaBoundingBox (frame_clusters od P lidar_points ! k)
                        ((next_obstacle_id ^^ k) (obstacle_id this))
                 else Call_axisAlignedBoundingBox (frame_clusters od P lidar_points ! k)
                        ((next_obstacle_id ^^ k) (obstacle_id this)))
         [0..<length (frame_clusters od P lidar_points)]
     \<and> filter is_tracking_call (snd (lidarPointsCallback od tf2_buffer P lidar_points this)) =
       (if USE_TRACKING P
        then [Call_obstacleTracking (prev_boxes this)
                (curr_boxes this
                 @ map (\<lambda>k. if USE_PCA_BOX P
                             then pcaBoundingBox od (frame_clusters od P lidar_points ! k)
                                    ((next_obstacle_id ^^ k) (obstacle_id this))
                             else axisAlignedBoundingBox od
                                    (frame_clusters od P lidar_points ! k)
                                    ((next_obstacle_id ^^ k) (obstacle_id this)))
                     [0..<length (frame_clusters od P lidar_points)])
                (DISPLACEMENT_THRESH P) (IOU_THRESH P)]
        else [])
     \<and> prev_boxes (fst (lidarPointsCallback od tf2_buffer P lidar_points this)) =
       (if USE_TRACKING P
        then obstacleTracking od (prev_boxes this)
               (curr_boxes this
                @ map (\<lambda>k. if USE_PCA_BOX P
                            then pcaBoundingBox od (frame_clusters od P lidar_points ! k)
                                   ((next_obstacle_id ^^ k) (obstacle_id this))
                            else axisAlignedBoundingBox od
                                   (frame_clusters od P lidar_points ! k)
                                   ((next_obstacle_id ^^ k) (obstacle_id this)))
                    [0..<length (frame_clusters od P lidar_points)])
               (DISPLACEMENT_THRESH P) (IOU_THRESH P)
        else curr_boxes this
             @ map (\<lambda>k. if USE_PCA_BOX P
                         then pcaBoundingBox od (frame_clusters od P lidar_points ! k)
                                ((next_obstacle_id ^^ k) (obstacle_id this))
                         else axisAlignedBoundingBox od (frame_clusters od P lidar_points ! k)
                                ((next_obstacle_id ^^ k) (obstacle_id this)))
                 [0..<length (frame_clusters od P lidar_points)])"
proof -
  have boxes: "fitted_boxes od P cs c
      = map (\<lambda>k. if USE_PCA_BOX P
                  then pcaBoundingBox od (cs ! k) ((next_obstacle_id ^^ k) c)
                  else axisAlignedBoundingBox od (cs ! k) ((next_obstacle_id ^^ k) c))
          [0..<length cs]" for cs c
    unfolding fitted_boxes_map by (simp add: fit_def del: upt_Suc)
  have calls: "filter is_fit_call (snd (lidarPointsCallback od tf2_buffer P lidar_points this))
      = map (\<lambda>k. fit_call P (frame_clusters od P lidar_points ! k)
                 ((next_obstacle_id ^^ k) (obstacle_id this)))
          [0..<length (frame_clusters od P lidar_points)]"
    by (simp add: callback_events_completed [OF assms] fit_calls_kept del: upt_Suc)
  have tracking: "filter is_tracking_call
        (snd (lidarPointsCallback od tf2_buffer P lidar_points this)) =
       (if USE_TRACKING P
        then [Call_obstacleTracking (prev_boxes this)
                (curr_boxes this
                 @ fitted_boxes od P (frame_clusters od P lidar_points) (obstacle_id this))
                (DISPLACEMENT_THRESH P) (IOU_THRESH P)]
        else [])"
    by (simp add: callback_events_completed [OF assms] fit_calls_publish_nothing
        del: upt_Suc)
  have previous: "prev_boxes (fst (lidarPointsCallback od tf2_buffer P lidar_points this)) =
       (if USE_TRACKING P
        then obstacleTracking od (prev_boxes this)
               (curr_boxes this
                @ fitted_boxes od P (frame_clusters od P lidar_points) (obstacle_id this))
               (DISPLACEMENT_THRESH P) (IOU_THRESH P)
        else curr_boxes this
             @ fitted_boxes od P (frame_clusters od P lidar_points) (obstacle_id this))"
    by (simp add: callback_completed [OF assms] frame_boxes_def Let_def)
  show ?thesis
    unfolding calls tracking previous boxes by (simp add: fit_call_def del: upt_Suc)
qed

theorem one_box_per_cluster_of_completed_frame_witness:
  "lookupTransform tf2_available (bbox_target_frame example_node)
     (frame_id (cloud_header example_points)) = Inr example_transform
   \<and> filter is_fit_call (snd (lidarPointsCallback example_detector tf2_available
        (example_parameters\<lparr>USE_TRACKING := False\<rparr>) example_points example_node))
     = [Call_axisAlignedBoundingBox [(1, 2, 3)] 4, Call_axisAlignedBoundingBox [(5, 6, 2)] 5]
   \<and> prev_boxes (fst (lidarPointsCallback example_detector tf2_available
        (example_parameters\<lparr>USE_TRACKING := False\<rparr>) example_points example_node))
     = [axisAlignedBoundingBox example_detector [(1, 2, 3)] 4,
        axisAlignedBoundingBox example_detector [(5, 6, 2)] 5]
   \<and> filter is_fit_call (snd (lidarPointsCallback example_detector tf2_available
        (example_parameters\<lparr>USE_PCA_BOX := True\<rparr>) example_points example_node))
     = [Call_pcaBoundingBox [(1, 2, 3)] 4, Call_pcaBoundingBox [(5, 6, 2)] 5]
   \<and> filter is_tracking_call (snd (lidarPointsCallback example_detector tf2_available
        (example_parameters\<lparr>USE_PCA_BOX := True\<rparr>) example_points example_node))
     = [Call_obstacleTracking (prev_boxes example_node)
          [pcaBoundingBox example_detector [(1, 2, 3)] 4,
           pcaBoundingBox example_detector [(5, 6, 2)] 5] 1 1]"
proof -
  have up: "lookupTransform tf2_available (bbox_target_frame example_node)
     (frame_id (cloud_header example_points)) = Inr example_transform"
    by (simp add: tf2_available_def)
  have clusters: "frame_clusters example_detector (example_parameters\<lparr>USE_TRACKING := False\<rparr>)
      example_points = [[(1, 2, 3)], [(5, 6, 2)]]"
    by (simp add: frame_clusters_def example_detector_def example_parameters_def
        example_points_def)
  have clusters_pca: "frame_clusters example_detector
      (example_parameters\<lparr>USE_PCA_BOX := True\<rparr>) example_points
      = [[(1, 2, 3)], [(5, 6, 2)]]"
    by (simp add: frame_clusters_def example_detector_def example_parameters_def
        example_points_def)
  have two: "[0..<length [[(1::real, 2::real, 3::real)], [(5, 6, 2)]]] = [0, 1]"
    by (simp add: upt_conv_Cons)
  have start: "curr_boxes example_node = [] \<and> obstacle_id example_node = 4
      \<and> \<not> USE_PCA_BOX example_parameters \<and> USE_TRACKING example_parameters
      \<and> DISPLACEMENT_THRESH example_parameters = 1 \<and> IOU_THRESH example_parameters = 1
      \<and> next_obstacle_id 4 = 5"
    by (simp add: example_node_def example_parameters_def next_obstacle_id_def SIZE_MAX_def)
  show ?thesis
    using up start
      one_box_per_cluster_of_completed_frame [OF up, of example_detector
        "example_parameters\<lparr>USE_TRACKING := False\<rparr>"]
      one_box_per_cluster_of_completed_frame [OF up, of example_detector
        "example_parameters\<lparr>USE_PCA_BOX := True\<rparr>"]
    unfolding clusters clusters_pca two
    by simp
qed

text \<open>
  Claim C8 as stated fails in a frame without transform: the clustering has produced two
  clusters, the callback returns before the loop, no fitter is called, no box is
  created, the box sets stay as they were and the counter stays where it was.
\<close>

theorem clusters_without_boxes:
  "frame_clusters example_detector example_parameters example_points
     = [[(1, 2, 3)], [(5, 6, 2)]]
   \<and> lookupTransform tf2_unavailable (bbox_target_frame example_node)
       (frame_id (cloud_header example_points)) = Inl (TransformException ''no transform'')
   \<and> filter is_fit_call (snd (lidarPointsCallback example_detector tf2_unavailable
        example_parameters example_points example_node)) = []
   \<and> curr_boxes (fst (lidarPointsCallback example_detector tf2_unavailable
        example_parameters example_points example_node)) = []
   \<and> map box_id (prev_boxes (fst (lidarPointsCallback example_detector tf2_unavailable
        example_parameters example_points example_node))) = [2]
   \<and> obstacle_id (fst (lidarPointsCallback example_detector tf2_unavailable
        example_parameters example_points example_node)) = 4"
proof -
  have down: "lookupTransform tf2_unavailable (bbox_target_frame example_node)
     (frame_id (cloud_header example_points)) = Inl (TransformException ''no transform'')"
    by (simp add: tf2_unavailable_def)
  have calls: "filter is_fit_call (snd (lidarPointsCallback example_detector tf2_unavailable
        example_parameters example_points example_node)) = []"
    by (simp add: callback_events_failed [OF down])
  have node: "fst (lidarPointsCallback example_detector tf2_unavailable
        example_parameters example_points example_node) = example_node"
    by (rule callback_lookup_failed [OF down])
  show ?thesis
    unfolding node calls using down
    by (simp add: example_frame_clusters example_node_def example_fit_def)
qed

subsection \<open>The published messages\<close>

text \<open>
  Claim C9, as amended. In a frame that has its transform, both messages hold one object
  for each current box of the frame, in order. The pose of the object is the transform
  applied to the pose of the box: the position from the three coordinates of
  \<open>box.position\<close>, the orientation from w, x, y and z of \<open>box.quaternion\<close>. The object has
  the three dimensions of the box unchanged and the id of the box reduced modulo
  \<open>2 ^ 32\<close>, since the id fields have 32 bits (so the id itself as long as it is below
  \<open>2 ^ 32\<close>). The detected object has the label \<open>unknown\<close> and the score 1. The bounding
  box has no text label: its numeric label holds the id, and its value is 1.
\<close>

theorem serialized_box_fields:
  assumes "lookupTransform tf2_buffer (bbox_target_frame this)
             (frame_id (cloud_header lidar_points)) = Inr transform_stamped"
  shows "published_jsk_boxes (snd (lidarPointsCallback od tf2_buffer P lidar_points this)) =
       map (\<lambda>box.
              \<lparr>jsk_header = \<lparr>seq = 0, stamp = 0, frame_id = bbox_target_frame this\<rparr>,
               jsk_pose =
                 doTransform tf2_buffer
                   \<lparr>pose_position =
                      \<lparr>point_x = coeff0 (position box), point_y = coeff1 (position box),
                       point_z = coeff2 (position box)\<rparr>,
                    pose_orientation =
                      \<lparr>orientation_x = quat_x (quaternion box),
                       orientation_y = quat_y (quaternion box),
                       orientation_z = quat_z (quaternion box),
                       orientation_w = quat_w (quaternion box)\<rparr>\<rparr>
                   transform_stamped,
               jsk_dimensions =
                 \<lparr>vector_x = coeff0 (dimension box), vector_y = coeff1 (dimension box),
                  vector_z = coeff2 (dimension box)\<rparr>,
               jsk_value = 1,
               jsk_label = of_nat (box_id box)\<rparr>)
         (frame_boxes od P lidar_points this)
     \<and> published_autoware_objects (snd (lidarPointsCallback od tf2_buffer P lidar_points this)) =
       map (\<lambda>box.
              \<lparr>aw_header = \<lparr>seq = 0, stamp = 0, frame_id = bbox_target_frame this\<rparr>,
               aw_id = of_nat (box_id box),
               aw_label = ''unknown'',
               aw_score = 1,
               aw_pose =
                 doTransform tf2_buffer
                   \<lparr>pose_position =
                      \<lparr>point_x = coeff0 (position box), point_y = coeff1 (position box),
                       point_z = coeff2 (position box)\<rparr>,
                    pose_orientation =
                      \<lparr>orientation_x = quat_x (quaternion box),
                       orientation_y = quat_y (quaternion box),
                       orientation_z = quat_z (quaternion box),
                       orientation_w = quat_w (quaternion box)\<rparr>\<rparr>
                   transform_stamped,
               aw_pose_reliable = True,
               aw_dimensions =
                 \<lparr>vector_x = coeff0 (dimension box), vector_y = coeff1 (dimension box),
                  vector_z = coeff2 (dimension box)\<rparr>,
               aw_valid = True\<rparr>)
         (frame_boxes od P lidar_points this)
     \<and> unat (jsk_label (transformJskBbox this box pose)) = box_id box mod 2 ^ 32
     \<and> unat (aw_id (transformAutowareObject this box pose)) = box_id box mod 2 ^ 32
     \<and> (box_id box < 2 ^ 32 \<longrightarrow>
          unat (jsk_label (transformJskBbox this box pose)) = box_id box
          \<and> unat (aw_id (transformAutowareObject this box pose)) = box_id box)
     \<and> jsk_pose (transformJskBbox this box pose) = pose
     \<and> jsk_dimensions (transformJskBbox this box pose) =
         \<lparr>vector_x = coeff0 (dimension box), vector_y = coeff1 (dimension box),
          vector_z = coeff2 (dimension box)\<rparr>
     \<and> jsk_value (transformJskBbox this box pose) = 1
     \<and> aw_pose (transformAutowareObject this box pose) = pose
     \<and> aw_dimensions (transformAutowareObject this box pose) =
         \<lparr>vector_x = coeff0 (dimension box), vector_y = coeff1 (dimension box),
          vector_z = coeff2 (dimension box)\<rparr>
     \<and> aw_label (transformAutowareObject this box pose) = ''unknown''
     \<and> aw_score (transformAutowareObject this box pose) = 1"
  by (simp add: callback_events_completed [OF assms] published_jsk_boxes_append
      published_autoware_objects_append fit_calls_publish_nothing transformJskBbox_def
      transformAutowareObject_def box_dimensions_def box_pose_def default_Header_def
      unat_id_field del: upt_Suc)

theorem serialized_box_fields_witness:
  "lookupTransform tf2_available (bbox_target_frame example_node)
     (frame_id (cloud_header example_points)) = Inr example_transform
   \<and> published_jsk_boxes (snd (lidarPointsCallback example_detector tf2_available
        example_parameters example_points example_node)) =
       [\<lparr>jsk_header = \<lparr>seq = 0, stamp = 0, frame_id = ''base_link''\<rparr>,
         jsk_pose =
           \<lparr>pose_position = \<lparr>point_x = 11, point_y = 22, point_z = 33\<rparr>,
            pose_orientation =
              \<lparr>orientation_x = 1 / 10, orientation_y = 7 / 10, orientation_z = 1 / 2,
               orientation_w = 1 / 2\<rparr>\<rparr>,
         jsk_dimensions = \<lparr>vector_x = 1, vector_y = 2, vector_z = 4\<rparr>,
         jsk_value = 1, jsk_label = 2\<rparr>,
        \<lparr>jsk_header = \<lparr>seq = 0, stamp = 0, frame_id = ''base_link''\<rparr>,
         jsk_pose =
           \<lparr>pose_position = \<lparr>point_x = 15, point_y = 26, point_z = 32\<rparr>,
            pose_orientation =
              \<lparr>orientation_x = 1 / 10, orientation_y = 7 / 10, orientation_z = 1 / 2,
               orientation_w = 1 / 2\<rparr>\<rparr>,
         jsk_dimensions = \<lparr>vector_x = 1, vector_y = 2, vector_z = 4\<rparr>,
         jsk_value = 1, jsk_label = 5\<rparr>]
   \<and> published_autoware_objects (snd (lidarPointsCallback example_detector tf2_available
        example_parameters example_points example_node)) =
       [\<lparr>aw_header = \<lparr>seq = 0, stamp = 0, frame_id = ''base_link''\<rparr>,
         aw_id = 2, aw_label = ''unknown'', aw_score = 1,
         aw_pose =
           \<lparr>pose_position = \<lparr>point_x = 11, point_y = 22, point_z = 33\<rparr>,
            pose_orientation =
              \<lparr>orientation_x = 1 / 10, orientation_y = 7 / 10, orientation_z = 1 / 2,
               orientation_w = 1 / 2\<rparr>\<rparr>,
         aw_pose_reliable = True,
         aw_dimensions = \<lparr>vector_x = 1, vector_y = 2, vector_z = 4\<rparr>,
         aw_valid = True\<rparr>,
        \<lparr>aw_header = \<lparr>seq = 0, stamp = 0, frame_id = ''base_link''\<rparr>,
         aw_id = 5, aw_label = ''unknown'', aw_score = 1,
         aw_pose =
           \<lparr>pose_position = \<lparr>point_x = 15, point_y = 26, point_z = 32\<rparr>,
            pose_orientation =
              \<lparr>orientation_x = 1 / 10, orientation_y = 7 / 10, orientation_z = 1 / 2,
               orientation_w = 1 / 2\<rparr>\<rparr>,
         aw_pose_reliable = True,
         aw_dimensions = \<lparr>vector_x = 1, vector_y = 2, vector_z = 4\<rparr>,
         aw_valid = True\<rparr>]
   \<and> box_id (example_fit 1 [(1, 2, 3)] 7) < 2 ^ 32
   \<and> unat (jsk_label (transformJskBbox example_node (example_fit 1 [(1, 2, 3)] 7)
        (box_pose (example_fit 1 [(1, 2, 3)] 7)))) = 7
   \<and> unat (aw_id (transformAutowareObject example_node (example_fit 1 [(1, 2, 3)] 7)
        (box_pose (example_fit 1 [(1, 2, 3)] 7)))) = 7"
proof -
  have up: "lookupTransform tf2_available (bbox_target_frame example_node)
     (frame_id (cloud_header example_points)) = Inr example_transform"
    by (simp add: tf2_available_def)
  have small: "box_id (example_fit 1 [(1, 2, 3)] 7) < 2 ^ 32
      \<and> box_id (example_fit 1 [(1, 2, 3)] 7) = 7"
    by (simp add: example_fit_def)
  show ?thesis
    using up small
      serialized_box_fields [OF up, of example_detector example_parameters
        "example_fit 1 [(1, 2, 3)] 7" "box_pose (example_fit 1 [(1, 2, 3)] 7)"]
    unfolding example_frame_boxes
    by (simp add: tf2_available_def example_transform_def example_node_def)
qed

text \<open>
  Claim C9 as stated fails in two places. An id that does not fit into 32 bits is not
  carried unchanged: the box with the id \<open>2 ^ 32 + 5\<close> is serialized with the id 5 in both
  messages. And the label of the bounding box is not a constant: it is the id, 5 for this
  box and 7 for the box with the id 7.
\<close>

theorem serialized_id_loses_high_bits:
  "box_id (example_fit 1 [(1, 2, 3)] 4294967301) = 4294967301
   \<and> unat (aw_id (transformAutowareObject example_node (example_fit 1 [(1, 2, 3)] 4294967301)
        (box_pose (example_fit 1 [(1, 2, 3)] 4294967301)))) = 5
   \<and> unat (jsk_label (transformJskBbox example_node (example_fit 1 [(1, 2, 3)] 4294967301)
        (box_pose (example_fit 1 [(1, 2, 3)] 4294967301)))) = 5
   \<and> unat (jsk_label (transformJskBbox example_node (example_fit 1 [(1, 2, 3)] 7)
        (box_pose (example_fit 1 [(1, 2, 3)] 7)))) = 7"
  by (simp add: transformJskBbox_def transformAutowareObject_def example_fit_def
      unat_id_field)

subsection \<open>The iteration budget of the segmentation\<close>

lemma construct_boxes_segmentPlane_update:
  "construct_boxes (od\<lparr>segmentPlane := seg\<rparr>) P clusters this
     = construct_boxes od P clusters this"
  by (induction clusters arbitrary: this) (simp_all add: Let_def)

text \<open>
  Claim C10. Every frame applies the segmentation once, with 30 iterations, to the
  filtered cloud and the ground threshold: the clustering receives the first component
  of \<open>segmentPlane filtered 30 threshold\<close>, the ground cloud that is published is its
  second component and the obstacle cloud its first. No other budget is used: a frame
  gives the same result with any segmentation that agrees with the detector's at 30
  iterations. This holds for all parameters, and so after every configuration that
  the parameter callback has loaded.
\<close>

theorem segmentation_budget_is_thirty:
  "take 6 (snd (lidarPointsCallback od tf2_buffer P lidar_points this)) =
     [ROS_INFO ''lidar points recieved'',
      Call_filterCloud (cloud_data lidar_points) (VOXEL_GRID_SIZE P) (ROI_MIN_POINT P)
        (ROI_MAX_POINT P),
      Call_segmentPlane
        (filterCloud od (cloud_data lidar_points) (VOXEL_GRID_SIZE P) (ROI_MIN_POINT P)
           (ROI_MAX_POINT P))
        30 (GROUND_THRESH P),
      Call_clustering
        (fst (segmentPlane od
           (filterCloud od (cloud_data lidar_points) (VOXEL_GRID_SIZE P) (ROI_MIN_POINT P)
              (ROI_MAX_POINT P))
           30 (GROUND_THRESH P)))
        (CLUSTER_THRESH P) (CLUSTER_MIN_SIZE P) (CLUSTER_MAX_SIZE P),
      Publish_cloud_ground
        \<lparr>cloud_header = cloud_header lidar_points,
         cloud_data =
           snd (segmentPlane od
             (filterCloud od (cloud_data lidar_points) (VOXEL_GRID_SIZE P) (ROI_MIN_POINT P)
                (ROI_MAX_POINT P))
             30 (GROUND_THRESH P))\<rparr>,
      Publish_cloud_clusters
        \<lparr>cloud_header = cloud_header lidar_points,
         cloud_data =
           fst (segmentPlane od
             (filterCloud od (cloud_data lidar_points) (VOXEL_GRID_SIZE P) (ROI_MIN_POINT P)
                (ROI_MAX_POINT P))
             30 (GROUND_THRESH P))\<rparr>]
   \<and> segmentation_budgets (snd (lidarPointsCallback od tf2_buffer P lidar_points this)) = [30]
   \<and> segmentation_budgets
        (snd (lidarPointsCallback od tf2_buffer (dynamicParamCallback to_float config level P)
           lidar_points this)) = [30]
   \<and> ((\<forall>cloud threshold. seg cloud 30 threshold = segmentPlane od cloud 30 threshold) \<longrightarrow>
        lidarPointsCallback (od\<lparr>segmentPlane := seg\<rparr>) tf2_buffer P lidar_points this
          = lidarPointsCallback od tf2_buffer P lidar_points this)"
proof -
  have budgets:
    "segmentation_budgets (snd (lidarPointsCallback od tf2_buffer Q lidar_points this)) = [30]"
    for Q
  proof (cases "lookupTransform tf2_buffer (bbox_target_frame this)
                  (frame_id (cloud_header lidar_points))")
    case (Inl ex)
    show ?thesis by (simp add: callback_events_failed [OF Inl])
  next
    case (Inr t)
    show ?thesis
      by (simp add: callback_events_completed [OF Inr] segmentation_budgets_append
          fit_calls_no_segmentation del: upt_Suc)
  qed
  have start: "take 6 (snd (lidarPointsCallback od tf2_buffer P lidar_points this)) =
     [ROS_INFO ''lidar points recieved'',
      Call_filterCloud (cloud_data lidar_points) (VOXEL_GRID_SIZE P) (ROI_MIN_POINT P)
        (ROI_MAX_POINT P),
      Call_segmentPlane
        (filterCloud od (cloud_data lidar_points) (VOXEL_GRID_SIZE P) (ROI_MIN_POINT P)
           (ROI_MAX_POINT P))
        30 (GROUND_THRESH P),
      Call_clustering (fst (frame_segments od P lidar_points))
        (CLUSTER_THRESH P) (CLUSTER_MIN_SIZE P) (CLUSTER_MAX_SIZE P),
      Publish_cloud_ground
        \<lparr>cloud_header = cloud_header lidar_points,
         cloud_data = snd (frame_segments od P lidar_points)\<rparr>,
      Publish_cloud_clusters
        \<lparr>cloud_header = cloud_header lidar_points,
         cloud_data = fst (frame_segments od P lidar_points)\<rparr>]"
  proof (cases "lookupTransform tf2_buffer (bbox_target_frame this)
                  (frame_id (cloud_header lidar_points))")
    case (Inl ex)
    show ?thesis by (simp add: callback_events_failed [OF Inl])
  next
    case (Inr t)
    show ?thesis by (simp add: callback_events_completed [OF Inr] del: upt_Suc)
  qed
  have same: "lidarPointsCallback (od\<lparr>segmentPlane := seg\<rparr>) tf2_buffer P lidar_points this
          = lidarPointsCallback od tf2_buffer P lidar_points this"
    if "\<forall>cloud threshold. seg cloud 30 threshold = segmentPlane od cloud 30 threshold"
    using that
    by (simp add: lidarPointsCallback_def Let_def split_beta
        construct_boxes_segmentPlane_update split: sum.splits)
  show ?thesis
    using budgets same unfolding start frame_segments_def by simp
qed

theorem segmentation_budget_is_thirty_witness:
  "lidarPointsCallback
        (example_detector\<lparr>segmentPlane :=
           \<lambda>cloud n threshold.
             if n = 30 then segmentPlane example_detector cloud n threshold else ([], cloud)\<rparr>)
        tf2_unavailable example_parameters example_points example_node
       = lidarPointsCallback example_detector tf2_unavailable example_parameters
           example_points example_node
   \<and> take 6 (snd (lidarPointsCallback example_detector tf2_unavailable example_parameters
        example_points example_node)) =
       [ROS_INFO ''lidar points recieved'',
        Call_filterCloud [(1, 2, 3), (0, 0, 0), (5, 6, 2)] 1 (Vector4f (- 10) (- 10) (- 10) 1)
          (Vector4f 10 10 10 1),
        Call_segmentPlane [(1, 2, 3), (0, 0, 0), (5, 6, 2)] 30 0,
        Call_clustering [(1, 2, 3), (5, 6, 2)] 1 1 100,
        Publish_cloud_ground
          \<lparr>cloud_header = \<lparr>seq = 7, stamp = 100, frame_id = ''lidar''\<rparr>,
           cloud_data = [(0, 0, 0)]\<rparr>,
        Publish_cloud_clusters
          \<lparr>cloud_header = \<lparr>seq = 7, stamp = 100, frame_id = ''lidar''\<rparr>,
           cloud_data = [(1, 2, 3), (5, 6, 2)]\<rparr>]"
proof -
  let ?seg = "\<lambda>cloud n threshold.
      if n = 30 then segmentPlane example_detector cloud n threshold else ([], cloud)"
  have agree: "\<forall>cloud threshold.
      ?seg cloud 30 threshold = segmentPlane example_detector cloud 30 threshold"
    by simp
  note frame = segmentation_budget_is_thirty [of example_detector tf2_unavailable
      example_parameters example_points example_node example_to_float example_bad_config 0
      ?seg]
  have same: "lidarPointsCallback (example_detector\<lparr>segmentPlane := ?seg\<rparr>)
        tf2_unavailable example_parameters example_points example_node
       = lidarPointsCallback example_detector tf2_unavailable example_parameters
           example_points example_node"
    using frame agree by blast
  have events: "take 6 (snd (lidarPointsCallback example_detector tf2_unavailable
        example_parameters example_points example_node)) =
       [ROS_INFO ''lidar points recieved'',
        Call_filterCloud [(1, 2, 3), (0, 0, 0), (5, 6, 2)] 1 (Vector4f (- 10) (- 10) (- 10) 1)
          (Vector4f 10 10 10 1),
        Call_segmentPlane [(1, 2, 3), (0, 0, 0), (5, 6, 2)] 30 0,
        Call_clustering [(1, 2, 3), (5, 6, 2)] 1 1 100,
        Publish_cloud_ground
          \<lparr>cloud_header = \<lparr>seq = 7, stamp = 100, frame_id = ''lidar''\<rparr>,
           cloud_data = [(0, 0, 0)]\<rparr>,
        Publish_cloud_clusters
          \<lparr>cloud_header = \<lparr>seq = 7, stamp = 100, frame_id = ''lidar''\<rparr>,
           cloud_data = [(1, 2, 3), (5, 6, 2)]\<rparr>]"
    using frame
    by (simp add: example_detector_def example_parameters_def example_points_def)
  show ?thesis
    using same events by simp
qed

subsection \<open>The tracker of the spec\<close>

text \<open>
  The two tracking cases that the spec gives as tests: a current box 0.1 away from a
  previous box takes over its id at a displacement threshold of 0.5, and a current box
  far away, without overlap, keeps its own.
\<close>

lemma displacement_le:
  assumes "0 \<le> d"
  shows "displacement P C \<le> d \<longleftrightarrow>
     (coeff0 (position P) - coeff0 (position C))\<^sup>2
     + (coeff1 (position P) - coeff1 (position C))\<^sup>2
     + (coeff2 (position P) - coeff2 (position C))\<^sup>2 \<le> d\<^sup>2"
proof -
  have "sqrt (d\<^sup>2) = d" using assms by simp
  then show ?thesis
    unfolding displacement_def by (metis real_sqrt_le_iff)
qed

lemma track_single:
  "track [P] [C] dt it = [if eligible dt it P C then C\<lparr>box_id := box_id P\<rparr> else C]"
proof (cases "eligible dt it P C")
  case True
  then have first: "eligible_pairs dt it [P] [C] [0] [0] = [(0, 0)]"
    by (simp add: eligible_pairs_def)
  have rest: "eligible_pairs dt it [P] [C] [] ns = []" for ns
    by (simp add: eligible_pairs_def)
  have "greedy dt it [P] [C] [0] [0] = [(0, 0)]"
    by (simp add: greedy.simps [of _ _ _ _ "[0]"] greedy.simps [of _ _ _ _ "[]"] first rest)
  then show ?thesis
    using True by (simp add: track_def reassign_def)
next
  case False
  then have none: "eligible_pairs dt it [P] [C] [0] [0] = []"
    by (simp add: eligible_pairs_def)
  have "greedy dt it [P] [C] [0] [0] = []"
    by (simp add: greedy.simps [of _ _ _ _ "[0]"] none)
  then show ?thesis
    using False by (simp add: track_def reassign_def)
qed

lemma track_follows_near_box:
  "track [\<lparr>box_id = 5, position = Vector3f 0 0 0, dimension = Vector3f 1 1 1,
            quaternion = Quaternionf 1 0 0 0\<rparr>]
     [\<lparr>box_id = 9, position = Vector3f (1 / 10) 0 0, dimension = Vector3f 1 1 1,
        quaternion = Quaternionf 1 0 0 0\<rparr>] (1 / 2) it
   = [\<lparr>box_id = 5, position = Vector3f (1 / 10) 0 0, dimension = Vector3f 1 1 1,
        quaternion = Quaternionf 1 0 0 0\<rparr>]"
proof -
  have "displacement
      \<lparr>box_id = 5, position = Vector3f 0 0 0, dimension = Vector3f 1 1 1,
         quaternion = Quaternionf 1 0 0 0\<rparr>
      \<lparr>box_id = 9, position = Vector3f (1 / 10) 0 0, dimension = Vector3f 1 1 1,
         quaternion = Quaternionf 1 0 0 0\<rparr> \<le> 1 / 2"
    by (subst displacement_le) (simp_all add: power2_eq_square)
  then show ?thesis
    by (simp add: track_single eligible_def)
qed

lemma track_leaves_far_box:
  "0 < it \<Longrightarrow>
   track [\<lparr>box_id = 5, position = Vector3f 0 0 0, dimension = Vector3f 1 1 1,
            quaternion = Quaternionf 1 0 0 0\<rparr>]
     [\<lparr>box_id = 9, position = Vector3f 10 10 10, dimension = Vector3f 1 1 1,
        quaternion = Quaternionf 1 0 0 0\<rparr>] (1 / 2) it
   = [\<lparr>box_id = 9, position = Vector3f 10 10 10, dimension = Vector3f 1 1 1,
        quaternion = Quaternionf 1 0 0 0\<rparr>]"
proof -
  assume it: "0 < it"
  have far: "\<not> displacement
      \<lparr>box_id = 5, position = Vector3f 0 0 0, dimension = Vector3f 1 1 1,
         quaternion = Quaternionf 1 0 0 0\<rparr>
      \<lparr>box_id = 9, position = Vector3f 10 10 10, dimension = Vector3f 1 1 1,
         quaternion = Quaternionf 1 0 0 0\<rparr> \<le> 1 / 2"
    by (subst displacement_le) (simp_all add: power2_eq_square)
  have "iou
      \<lparr>box_id = 5, position = Vector3f 0 0 0, dimension = Vector3f 1 1 1,
         quaternion = Quaternionf 1 0 0 0\<rparr>
      \<lparr>box_id = 9, position = Vector3f 10 10 10, dimension = Vector3f 1 1 1,
         quaternion = Quaternionf 1 0 0 0\<rparr> = 0"
    by (simp add: iou_def intersection_def overlap_def volume_def Let_def)
  then show ?thesis
    using far it by (simp add: track_single eligible_def)
qed

text \<open>
  The greedy matching uses every previous box at most once, so the ids after tracking
  are pairwise distinct when the previous ids are, the current ids are, and the two sets
  of ids are apart. No id is invented.
\<close>

lemma best_pair_mem: "best_pair ps cs xs = Some p \<Longrightarrow> p \<in> set xs"
  by (induction xs arbitrary: p) (auto split: option.splits if_splits)

lemma eligible_pairs_fst: "(i, j) \<in> set (eligible_pairs dt it ps cs ms ns) \<Longrightarrow> i \<in> set ms"
  by (auto simp: eligible_pairs_def)

lemma greedy_fst:
  "distinct (map fst (greedy dt it ps cs ms ns))
   \<and> fst ` set (greedy dt it ps cs ms ns) \<subseteq> set ms"
proof (induction dt it ps cs ms ns rule: greedy.induct)
  case (1 dt it ps cs ms ns)
  show ?case
  proof (cases "best_pair ps cs (eligible_pairs dt it ps cs ms ns)")
    case None
    then show ?thesis by (simp add: greedy.simps [of dt it ps cs ms ns])
  next
    case (Some p)
    obtain i j where p: "p = (i, j)" by (cases p)
    have i: "i \<in> set ms"
      using best_pair_mem [OF Some] p eligible_pairs_fst by blast
    have IH: "distinct (map fst (greedy dt it ps cs (removeAll i ms) (removeAll j ns)))
      \<and> fst ` set (greedy dt it ps cs (removeAll i ms) (removeAll j ns))
          \<subseteq> set (removeAll i ms)"
      using "1.IH" [OF Some p [symmetric]] .
    have unfold: "greedy dt it ps cs ms ns
        = (i, j) # greedy dt it ps cs (removeAll i ms) (removeAll j ns)"
      using Some p by (simp add: greedy.simps [of dt it ps cs ms ns])
    show ?thesis
      unfolding unfold using IH i by auto
  qed
qed

lemma reassign_ids_distinct:
  assumes m: "distinct (map fst m)" and range: "fst ` set m \<subseteq> {..<length ps}"
    and ps: "distinct (map box_id ps)" and cs: "distinct (map box_id cs)"
    and apart: "set (map box_id ps) \<inter> set (map box_id cs) = {}"
  shows "distinct (map box_id (reassign ps m cs))"
proof -
  let ?look = "map_of (map (\<lambda>(i, j). (j, i)) m)"
  let ?f = "\<lambda>j. case ?look j of None \<Rightarrow> box_id (cs ! j) | Some i \<Rightarrow> box_id (ps ! i)"
  have ids: "map box_id (reassign ps m cs) = map ?f [0..<length cs]"
    by (simp add: reassign_def comp_def option.case_distrib [of box_id] cong: option.case_cong)
  have found: "(i, j) \<in> set m" if "?look j = Some i" for i j
    using map_of_SomeD [OF that] by auto
  have "inj_on ?f {0..<length cs}"
  proof (rule inj_onI)
    fix j1 j2
    assume j1: "j1 \<in> {0..<length cs}" and j2: "j2 \<in> {0..<length cs}" and eq: "?f j1 = ?f j2"
    show "j1 = j2"
    proof (cases "?look j1")
      case None
      note n1 = None
      show ?thesis
      proof (cases "?look j2")
        case None
        then have "box_id (cs ! j1) = box_id (cs ! j2)" using eq n1 by simp
        then have "map box_id cs ! j1 = map box_id cs ! j2" using j1 j2 by simp
        then show ?thesis using nth_eq_iff_index_eq [OF cs, of j1 j2] j1 j2 by simp
      next
        case (Some i2)
        have "i2 < length ps" using found [OF Some] range by auto
        then have "box_id (ps ! i2) \<in> set (map box_id ps)" by simp
        moreover have "box_id (cs ! j1) \<in> set (map box_id cs)" using j1 by simp
        moreover have "box_id (cs ! j1) = box_id (ps ! i2)" using eq n1 Some by simp
        ultimately show ?thesis using apart by auto
      qed
    next
      case (Some i1)
      note s1 = Some
      have i1: "i1 < length ps" using found [OF s1] range by auto
      show ?thesis
      proof (cases "?look j2")
        case None
        have "box_id (ps ! i1) \<in> set (map box_id ps)" using i1 by simp
        moreover have "box_id (cs ! j2) \<in> set (map box_id cs)" using j2 by simp
        moreover have "box_id (ps ! i1) = box_id (cs ! j2)" using eq s1 None by simp
        ultimately show ?thesis using apart by auto
      next
        case (Some i2)
        have i2: "i2 < length ps" using found [OF Some] range by auto
        have "box_id (ps ! i1) = box_id (ps ! i2)" using eq s1 Some by simp
        then have "map box_id ps ! i1 = map box_id ps ! i2" using i1 i2 by simp
        then have "i1 = i2" using nth_eq_iff_index_eq [OF ps, of i1 i2] i1 i2 by simp
        then show ?thesis
          using eq_key_imp_eq_value [OF m found [OF s1]] found [OF Some] by simp
      qed
    qed
  qed
  then show ?thesis
    unfolding ids by (simp add: distinct_map)
qed

lemma track_ids_distinct:
  assumes "distinct (map box_id ps)" and "distinct (map box_id cs)"
    and "set (map box_id ps) \<inter> set (map box_id cs) = {}"
  shows "distinct (map box_id (track ps cs dt it))"
proof -
  have "fst ` set (greedy dt it ps cs [0..<length ps] [0..<length cs]) \<subseteq> {..<length ps}"
    using greedy_fst [of dt it ps cs "[0..<length ps]" "[0..<length cs]"] by auto
  then show ?thesis
    unfolding track_def
    using greedy_fst [of dt it ps cs "[0..<length ps]" "[0..<length cs]"] assms
    by (intro reassign_ids_distinct) simp_all
qed

lemma reassign_ids_subset:
  assumes "fst ` set m \<subseteq> {..<length ps}"
  shows "set (map box_id (reassign ps m cs)) \<subseteq> set (map box_id ps) \<union> set (map box_id cs)"
proof
  fix a
  assume "a \<in> set (map box_id (reassign ps m cs))"
  then obtain j where j: "j < length cs"
    and a: "a = box_id (case map_of (map (\<lambda>(i, j). (j, i)) m) j of
                 None \<Rightarrow> cs ! j
               | Some i \<Rightarrow> (cs ! j)\<lparr>box_id := box_id (ps ! i)\<rparr>)"
    by (auto simp: reassign_def)
  show "a \<in> set (map box_id ps) \<union> set (map box_id cs)"
  proof (cases "map_of (map (\<lambda>(i, j). (j, i)) m) j")
    case None
    then show ?thesis using a j by simp
  next
    case (Some i)
    have "(i, j) \<in> set m" using map_of_SomeD [OF Some] by auto
    then have "i < length ps" using assms by auto
    then show ?thesis using a Some by simp
  qed
qed

lemma track_ids_subset:
  "set (map box_id (track ps cs dt it)) \<subseteq> set (map box_id ps) \<union> set (map box_id cs)"
proof -
  have "fst ` set (greedy dt it ps cs [0..<length ps] [0..<length cs]) \<subseteq> {..<length ps}"
    using greedy_fst [of dt it ps cs "[0..<length ps]" "[0..<length cs]"] by auto
  then show ?thesis
    unfolding track_def by (rule reassign_ids_subset)
qed

subsection \<open>Distinct ids\<close>

text \<open>
  The counter step is the addition of 1 modulo \<open>2 ^ 64\<close>, so fewer than \<open>2 ^ 64\<close>
  successive counter values are pairwise distinct.
\<close>

lemma next_obstacle_id_plus: "next_obstacle_id i = i + 1"
proof (cases "i = SIZE_MAX")
  case True
  then show ?thesis by (simp add: next_obstacle_id_def SIZE_MAX_def)
next
  case False
  then have "i < SIZE_MAX" by (simp add: SIZE_MAX_minus_one word_order.not_eq_extremum)
  then show ?thesis by (simp add: next_obstacle_id_def)
qed

lemma next_obstacle_id_funpow: "unat ((next_obstacle_id ^^ k) i) = (unat i + k) mod 2 ^ 64"
proof (induction k)
  case 0
  have "unat i < 2 ^ 64" using unsigned_less [of i] by simp
  then show ?case by simp
next
  case (Suc k)
  have step: "(next_obstacle_id ^^ Suc k) i = (next_obstacle_id ^^ k) i + 1"
    using next_obstacle_id_plus [of "(next_obstacle_id ^^ k) i"] by simp
  have "unat ((next_obstacle_id ^^ Suc k) i)
      = (unat ((next_obstacle_id ^^ k) i) + 1) mod 2 ^ 64"
    unfolding step by (simp add: unat_word_ariths)
  also have "\<dots> = ((unat i + k) mod 2 ^ 64 + 1) mod 2 ^ 64"
    by (simp only: Suc.IH)
  also have "\<dots> = (unat i + Suc k) mod 2 ^ 64"
    by (simp add: mod_Suc_eq)
  finally show ?case .
qed

lemma provisional_ids_distinct:
  assumes "n \<le> 2 ^ 64"
  shows "distinct (map (\<lambda>k. (a + k) mod (2 ^ 64 :: nat)) [0..<n])"
proof -
  have "inj_on (\<lambda>k. (a + k) mod (2 ^ 64 :: nat)) {0..<n}"
  proof (rule inj_onI)
    fix x y
    assume x: "x \<in> {0..<n}" and y: "y \<in> {0..<n}"
      and eq: "(a + x) mod (2 ^ 64 :: nat) = (a + y) mod 2 ^ 64"
    from eq obtain q1 q2 where "a + x + 2 ^ 64 * q1 = a + y + 2 ^ 64 * q2"
      unfolding nat_mod_eq_iff by blast
    then have "x + 2 ^ 64 * q1 = y + 2 ^ 64 * q2" by simp
    then have "x mod 2 ^ 64 = y mod (2 ^ 64 :: nat)"
      unfolding nat_mod_eq_iff by blast
    then show "x = y" using x y assms by simp
  qed
  then show ?thesis by (simp add: distinct_map)
qed

lemma fitted_boxes_ids:
  assumes "\<forall>cluster i. box_id (pcaBoundingBox od cluster i) = unat i
             \<and> box_id (axisAlignedBoundingBox od cluster i) = unat i"
  shows "map box_id (fitted_boxes od P clusters c)
           = map (\<lambda>k. (unat c + k) mod 2 ^ 64) [0..<length clusters]"
proof (rule nth_equalityI)
  show "length (map box_id (fitted_boxes od P clusters c))
      = length (map (\<lambda>k. (unat c + k) mod 2 ^ 64) [0..<length clusters])"
    by (simp add: fitted_boxes_length)
next
  fix k
  assume "k < length (map box_id (fitted_boxes od P clusters c))"
  then have k: "k < length clusters" by (simp add: fitted_boxes_length)
  have "box_id (fit od P (clusters ! k) ((next_obstacle_id ^^ k) c))
      = unat ((next_obstacle_id ^^ k) c)"
    using assms by (simp add: fit_def)
  then show "map box_id (fitted_boxes od P clusters c) ! k
      = map (\<lambda>k. (unat c + k) mod 2 ^ 64) [0..<length clusters] ! k"
    using k by (simp add: fitted_boxes_length fitted_boxes_nth next_obstacle_id_funpow)
qed

lemma frame_box_ids_distinct:
  assumes fitters: "\<forall>cluster i. box_id (pcaBoundingBox od cluster i) = unat i
             \<and> box_id (axisAlignedBoundingBox od cluster i) = unat i"
    and tracker: "obstacleTracking od = track"
    and empty: "curr_boxes this = []"
    and size: "length (frame_clusters od P lidar_points) < 2 ^ 64"
    and previous: "distinct (map box_id (prev_boxes this))"
    and apart: "set (map box_id (prev_boxes this))
        \<inter> set (map box_id (fitted_boxes od P (frame_clusters od P lidar_points)
               (obstacle_id this))) = {}"
  shows "(\<forall>k\<le>length (frame_clusters od P lidar_points).
            distinct (map box_id (curr_boxes (fst (construct_boxes od P
              (take k (frame_clusters od P lidar_points)) this)))))
       \<and> distinct (map box_id (frame_boxes od P lidar_points this))"
proof -
  let ?clusters = "frame_clusters od P lidar_points"
  have prefix: "distinct (map box_id (fitted_boxes od P (take k ?clusters) (obstacle_id this)))"
    if "k \<le> length ?clusters" for k
  proof -
    have "length (take k ?clusters) \<le> 2 ^ 64" using that size by simp
    then show ?thesis
      unfolding fitted_boxes_ids [OF fitters] by (rule provisional_ids_distinct)
  qed
  have whole: "distinct (map box_id (fitted_boxes od P ?clusters (obstacle_id this)))"
    using prefix [of "length ?clusters"] by simp
  have tracked: "distinct (map box_id (track (prev_boxes this)
      (fitted_boxes od P ?clusters (obstacle_id this)) dt it))" for dt it
    using previous whole apart by (rule track_ids_distinct)
  show ?thesis
    using prefix whole tracked empty tracker
    by (simp add: construct_boxes_fst frame_boxes_def Let_def)
qed

lemma loop_box_ids_distinct:
  assumes fitters: "\<forall>cluster i. box_id (pcaBoundingBox od cluster i) = unat i
             \<and> box_id (axisAlignedBoundingBox od cluster i) = unat i"
    and size: "length clusters < 2 ^ 64"
  shows "distinct (map box_id (fitted_boxes od P (take k clusters) c))"
proof -
  have "length (take k clusters) \<le> 2 ^ 64" using size by simp
  then show ?thesis
    unfolding fitted_boxes_ids [OF fitters] by (rule provisional_ids_distinct)
qed

text \<open>
  Claim C7, as amended. Let the fitters store the id they are given. In a frame with fewer
  than \<open>2 ^ 64\<close> clusters the ids of the current boxes are pairwise distinct after every
  round of the box loop, and so they are at the end of the frame when tracking is off.
  When the tracker of the spec has run they are pairwise distinct as well, provided that
  the ids of the previous boxes are pairwise distinct and none of them is among the
  provisional ids of the frame. In a frame that has its transform these boxes become the
  previous boxes.
\<close>

theorem box_ids_distinct:
  assumes fitters: "\<forall>cluster i. box_id (pcaBoundingBox od cluster i) = unat i
             \<and> box_id (axisAlignedBoundingBox od cluster i) = unat i"
    and empty: "curr_boxes this = []"
    and size: "length (frame_clusters od P lidar_points) < 2 ^ 64"
  shows "(\<forall>k\<le>length (frame_clusters od P lidar_points).
            distinct (map box_id (curr_boxes (fst (construct_boxes od P
              (take k (frame_clusters od P lidar_points)) this)))))
       \<and> (\<not> USE_TRACKING P \<longrightarrow>
            distinct (map box_id (frame_boxes od P lidar_points this)))
       \<and> (obstacleTracking od = track \<longrightarrow>
            distinct (map box_id (prev_boxes this)) \<longrightarrow>
            set (map box_id (prev_boxes this))
              \<inter> set (map box_id (fitted_boxes od P (frame_clusters od P lidar_points)
                     (obstacle_id this))) = {} \<longrightarrow>
            distinct (map box_id (frame_boxes od P lidar_points this)))
       \<and> (\<forall>t. lookupTransform tf2_buffer (bbox_target_frame this)
                  (frame_id (cloud_header lidar_points)) = Inr t \<longrightarrow>
              prev_boxes (fst (lidarPointsCallback od tf2_buffer P lidar_points this))
                = frame_boxes od P lidar_points this)"
proof -
  let ?clusters = "frame_clusters od P lidar_points"
  have frame: "prev_boxes (fst (lidarPointsCallback od tf2_buffer P lidar_points this))
                = frame_boxes od P lidar_points this"
    if "lookupTransform tf2_buffer (bbox_target_frame this)
          (frame_id (cloud_header lidar_points)) = Inr t" for t
    by (simp add: callback_completed [OF that, of od P])
  have prefix: "distinct (map box_id (curr_boxes (fst (construct_boxes od P
      (take k ?clusters) this))))" for k
    using loop_box_ids_distinct [OF fitters size, of P k "obstacle_id this"] empty
    by (simp add: construct_boxes_fst)
  have whole: "distinct (map box_id (fitted_boxes od P ?clusters (obstacle_id this)))"
    using loop_box_ids_distinct [OF fitters size, of P "length ?clusters" "obstacle_id this"]
    by simp
  have off: "distinct (map box_id (frame_boxes od P lidar_points this))"
    if "\<not> USE_TRACKING P"
    using that whole empty by (simp add: frame_boxes_def)
  have tracked: "distinct (map box_id (frame_boxes od P lidar_points this))"
    if "obstacleTracking od = track" and "distinct (map box_id (prev_boxes this))"
      and "set (map box_id (prev_boxes this))
              \<inter> set (map box_id (fitted_boxes od P ?clusters (obstacle_id this))) = {}"
    using frame_box_ids_distinct [OF fitters that(1) empty size that(2) that(3)] by simp
  show ?thesis
    using prefix off tracked frame by blast
qed

lemma tracking_frame_clusters:
  "frame_clusters tracking_detector example_parameters example_points
     = [[(1, 2, 3)], [(5, 6, 2)]]"
  by (simp add: frame_clusters_def tracking_detector_def example_detector_def
      example_parameters_def example_points_def)

lemma tracking_fitted_boxes:
  "fitted_boxes tracking_detector example_parameters [[(1, 2, 3)], [(5, 6, 2)]] c
     = [\<lparr>box_id = unat c, position = Vector3f 1 2 3, dimension = Vector3f 1 2 4,
          quaternion = Quaternionf (1 / 2) (1 / 10) (7 / 10) (1 / 2)\<rparr>,
        \<lparr>box_id = unat (next_obstacle_id c), position = Vector3f 5 6 2,
          dimension = Vector3f 1 2 4, quaternion = Quaternionf (1 / 2) (1 / 10) (7 / 10) (1 / 2)\<rparr>]"
  by (simp add: fit_def tracking_detector_def example_detector_def example_parameters_def
      example_fit_def)

lemma example_track:
  "track [\<lparr>box_id = a, position = Vector3f 1 2 3, dimension = Vector3f 1 2 4,
            quaternion = Quaternionf (1 / 2) (1 / 10) (7 / 10) (1 / 2)\<rparr>]
     [\<lparr>box_id = b, position = Vector3f 1 2 3, dimension = Vector3f 1 2 4,
        quaternion = Quaternionf (1 / 2) (1 / 10) (7 / 10) (1 / 2)\<rparr>,
      \<lparr>box_id = c, position = Vector3f 5 6 2, dimension = Vector3f 1 2 4,
        quaternion = Quaternionf (1 / 2) (1 / 10) (7 / 10) (1 / 2)\<rparr>] 1 1
   = [\<lparr>box_id = a, position = Vector3f 1 2 3, dimension = Vector3f 1 2 4,
        quaternion = Quaternionf (1 / 2) (1 / 10) (7 / 10) (1 / 2)\<rparr>,
      \<lparr>box_id = c, position = Vector3f 5 6 2, dimension = Vector3f 1 2 4,
        quaternion = Quaternionf (1 / 2) (1 / 10) (7 / 10) (1 / 2)\<rparr>]"
proof -
  let ?P = "\<lparr>box_id = a, position = Vector3f 1 2 3, dimension = Vector3f 1 2 4,
            quaternion = Quaternionf (1 / 2) (1 / 10) (7 / 10) (1 / 2)\<rparr>"
  let ?B = "\<lparr>box_id = b, position = Vector3f 1 2 3, dimension = Vector3f 1 2 4,
        quaternion = Quaternionf (1 / 2) (1 / 10) (7 / 10) (1 / 2)\<rparr>"
  let ?C = "\<lparr>box_id = c, position = Vector3f 5 6 2, dimension = Vector3f 1 2 4,
        quaternion = Quaternionf (1 / 2) (1 / 10) (7 / 10) (1 / 2)\<rparr>"
  have near: "eligible 1 1 ?P ?B"
    by (simp add: eligible_def displacement_def)
  have far: "\<not> eligible 1 1 ?P ?C"
    by (simp add: eligible_def displacement_def iou_def intersection_def overlap_def
        volume_def Let_def)
  have first: "eligible_pairs 1 1 [?P] [?B, ?C] [0] [0, Suc 0] = [(0, 0)]"
    using near far by (simp add: eligible_pairs_def)
  have rest: "eligible_pairs 1 1 [?P] [?B, ?C] [] ns = []" for ns
    by (simp add: eligible_pairs_def)
  have "greedy 1 1 [?P] [?B, ?C] [0] [0, Suc 0] = [(0, 0)]"
    by (simp add: greedy.simps [of _ _ _ _ "[0]"] greedy.simps [of _ _ _ _ "[]"] first rest)
  then show ?thesis
    by (simp add: track_def reassign_def upt_conv_Cons)
qed

theorem box_ids_distinct_witness:
  "map box_id (frame_boxes tracking_detector example_parameters example_points example_node)
     = [2, 5]
   \<and> distinct (map box_id (frame_boxes tracking_detector example_parameters example_points
        example_node))
   \<and> map box_id (frame_boxes tracking_detector (example_parameters\<lparr>USE_TRACKING := False\<rparr>)
        example_points node_after_wrap) = [18446744073709551615, 0]
   \<and> distinct (map box_id (frame_boxes tracking_detector
        (example_parameters\<lparr>USE_TRACKING := False\<rparr>) example_points node_after_wrap))
   \<and> distinct (map box_id (curr_boxes (fst (construct_boxes tracking_detector
        example_parameters
        (take 1 (frame_clusters tracking_detector example_parameters example_points))
        node_after_wrap))))
   \<and> lookupTransform tf2_available (bbox_target_frame example_node)
       (frame_id (cloud_header example_points)) = Inr example_transform
   \<and> map box_id (prev_boxes (fst (lidarPointsCallback tracking_detector tf2_available
        example_parameters example_points example_node))) = [2, 5]"
proof -
  let ?off = "example_parameters\<lparr>USE_TRACKING := False\<rparr>"
  have fitters: "\<forall>cluster i. box_id (pcaBoundingBox tracking_detector cluster i) = unat i
             \<and> box_id (axisAlignedBoundingBox tracking_detector cluster i) = unat i"
    by (simp add: tracking_detector_def example_detector_def example_fit_def)
  have tracker: "obstacleTracking tracking_detector = track"
    by (simp add: tracking_detector_def)
  have empty: "curr_boxes example_node = []"
    by (simp add: example_node_def)
  have empty_wrap: "curr_boxes node_after_wrap = []"
    by (simp add: node_after_wrap_def)
  have clusters_off: "frame_clusters tracking_detector ?off example_points
      = frame_clusters tracking_detector example_parameters example_points"
    by (simp add: frame_clusters_def)
  have size: "length (frame_clusters tracking_detector example_parameters example_points)
      < 2 ^ 64"
    by (simp add: tracking_frame_clusters)
  have size_off: "length (frame_clusters tracking_detector ?off example_points) < 2 ^ 64"
    by (simp add: clusters_off tracking_frame_clusters)
  have previous: "distinct (map box_id (prev_boxes example_node))"
    by (simp add: example_node_def)
  have apart: "set (map box_id (prev_boxes example_node))
        \<inter> set (map box_id (fitted_boxes tracking_detector example_parameters
               (frame_clusters tracking_detector example_parameters example_points)
               (obstacle_id example_node))) = {}"
    unfolding tracking_frame_clusters tracking_fitted_boxes
    by (simp add: example_node_def example_fit_def next_obstacle_id_def SIZE_MAX_def)
  have tracking: "USE_TRACKING example_parameters \<and> DISPLACEMENT_THRESH example_parameters = 1
      \<and> IOU_THRESH example_parameters = 1"
    by (simp add: example_parameters_def)
  have ids: "map box_id (frame_boxes tracking_detector example_parameters example_points
      example_node) = [2, 5]"
    unfolding frame_boxes_def tracking_frame_clusters tracking_fitted_boxes tracker
    using tracking
    by (simp add: example_node_def example_fit_def example_track next_obstacle_id_def
        SIZE_MAX_def)
  have fitted_off: "fitted_boxes tracking_detector ?off cs c
      = fitted_boxes tracking_detector example_parameters cs c" for cs c
    by (induction cs arbitrary: c) (simp_all add: fit_def)
  have ids_off: "map box_id (frame_boxes tracking_detector ?off example_points
      node_after_wrap) = [18446744073709551615, 0]"
    unfolding frame_boxes_def clusters_off fitted_off tracking_frame_clusters
      tracking_fitted_boxes
    by (simp add: node_after_wrap_def next_obstacle_id_def SIZE_MAX_def)
  have one: "(1::nat) \<le> length (frame_clusters tracking_detector example_parameters
      example_points)"
    by (simp add: tracking_frame_clusters)
  have up: "lookupTransform tf2_available (bbox_target_frame example_node)
       (frame_id (cloud_header example_points)) = Inr example_transform"
    by (simp add: tf2_available_def)
  note on = box_ids_distinct [OF fitters empty size, of tf2_available]
  note off = box_ids_distinct [OF fitters empty_wrap size_off, of tf2_available]
  note wrap = box_ids_distinct [OF fitters empty_wrap size, of tf2_available]
  have after: "prev_boxes (fst (lidarPointsCallback tracking_detector tf2_available
        example_parameters example_points example_node))
      = frame_boxes tracking_detector example_parameters example_points example_node"
    using on up by blast
  have "distinct (map box_id (frame_boxes tracking_detector example_parameters
      example_points example_node))"
    using on tracker previous apart by blast
  moreover have "distinct (map box_id (frame_boxes tracking_detector ?off example_points
      node_after_wrap))"
    using off by simp
  moreover have "distinct (map box_id (curr_boxes (fst (construct_boxes tracking_detector
        example_parameters
        (take 1 (frame_clusters tracking_detector example_parameters example_points))
        node_after_wrap))))"
    using wrap one by blast
  ultimately show ?thesis
    using ids ids_off up after by simp
qed

text \<open>
  Claim C7 as stated fails once the counter has started again from 0. The node below has
  tracked one box since the first frame, so the box still has the id 0, and the counter
  stands at \<open>SIZE_MAX\<close>. The frame has two clusters. The first, at the place of the
  tracked box, gets the provisional id \<open>SIZE_MAX\<close> and then, from the tracker, the id 0.
  The second, far away, gets the provisional id 0 after the reset of the counter and
  keeps it. Both boxes of the frame have the id 0, and so have the previous boxes of the
  next frame.
\<close>

theorem box_ids_collide_after_wrap:
  "lookupTransform tf2_available (bbox_target_frame node_after_wrap)
     (frame_id (cloud_header example_points)) = Inr example_transform
   \<and> map box_id (prev_boxes node_after_wrap) = [0]
   \<and> map box_id (fitted_boxes tracking_detector example_parameters
        (frame_clusters tracking_detector example_parameters example_points)
        (obstacle_id node_after_wrap)) = [18446744073709551615, 0]
   \<and> map box_id (frame_boxes tracking_detector example_parameters example_points
        node_after_wrap) = [0, 0]
   \<and> \<not> distinct (map box_id (frame_boxes tracking_detector example_parameters example_points
        node_after_wrap))
   \<and> map box_id (prev_boxes (fst (lidarPointsCallback tracking_detector
        tf2_available example_parameters example_points node_after_wrap))) = [0, 0]"
proof -
  have up: "lookupTransform tf2_available (bbox_target_frame node_after_wrap)
     (frame_id (cloud_header example_points)) = Inr example_transform"
    by (simp add: tf2_available_def)
  have tracker: "obstacleTracking tracking_detector = track"
    by (simp add: tracking_detector_def)
  have fitted: "map box_id (fitted_boxes tracking_detector example_parameters
        (frame_clusters tracking_detector example_parameters example_points)
        (obstacle_id node_after_wrap)) = [18446744073709551615, 0]"
    unfolding tracking_frame_clusters tracking_fitted_boxes
    by (simp add: node_after_wrap_def next_obstacle_id_def SIZE_MAX_def)
  have tracking: "USE_TRACKING example_parameters \<and> DISPLACEMENT_THRESH example_parameters = 1
      \<and> IOU_THRESH example_parameters = 1"
    by (simp add: example_parameters_def)
  have ids: "map box_id (frame_boxes tracking_detector example_parameters example_points
      node_after_wrap) = [0, 0]"
    unfolding frame_boxes_def tracking_frame_clusters tracking_fitted_boxes tracker
    using tracking
    by (simp add: node_after_wrap_def example_fit_def example_track next_obstacle_id_def
        SIZE_MAX_def)
  have labels: "prev_boxes (fst (lidarPointsCallback tracking_detector
        tf2_available example_parameters example_points node_after_wrap))
      = frame_boxes tracking_detector example_parameters example_points node_after_wrap"
    by (simp add: callback_completed [OF up])
  show ?thesis
    using up fitted ids labels by (simp add: node_after_wrap_def example_fit_def)
qed

text \<open>
  Until then the condition of the amended claim holds by itself: it is true of the new
  node, and a frame that does not take the counter past \<open>SIZE_MAX\<close> keeps it.
\<close>

lemma ids_below_counter_new: "ids_below_counter (new_ObstacleDetectorNode target)"
  by (simp add: ids_below_counter_def new_ObstacleDetectorNode_def)

lemma ids_below_counter_apart:
  assumes fitters: "\<forall>cluster i. box_id (pcaBoundingBox od cluster i) = unat i
             \<and> box_id (axisAlignedBoundingBox od cluster i) = unat i"
    and below: "ids_below_counter this"
    and room: "unat (obstacle_id this) + length clusters \<le> 2 ^ 64"
  shows "set (map box_id (prev_boxes this))
        \<inter> set (map box_id (fitted_boxes od P clusters (obstacle_id this))) = {}"
proof -
  have small: "(unat (obstacle_id this) + k) mod 2 ^ 64 = unat (obstacle_id this) + k"
    if "k < length clusters" for k
    using that room by simp
  have "unat (obstacle_id this) \<le> a"
    if "a \<in> set (map box_id (fitted_boxes od P clusters (obstacle_id this)))" for a
    using that small unfolding fitted_boxes_ids [OF fitters] by auto
  moreover have "a < unat (obstacle_id this)" if "a \<in> set (map box_id (prev_boxes this))" for a
    using that below by (auto simp: ids_below_counter_def list_all_iff)
  ultimately show ?thesis by fastforce
qed

lemma ids_below_counter_kept:
  assumes fitters: "\<forall>cluster i. box_id (pcaBoundingBox od cluster i) = unat i
             \<and> box_id (axisAlignedBoundingBox od cluster i) = unat i"
    and tracker: "obstacleTracking od = track"
    and below: "ids_below_counter this"
    and room: "unat (obstacle_id this) + length (frame_clusters od P lidar_points) < 2 ^ 64"
  shows "ids_below_counter (fst (lidarPointsCallback od tf2_buffer P lidar_points this))"
proof (cases "lookupTransform tf2_buffer (bbox_target_frame this)
                (frame_id (cloud_header lidar_points))")
  case (Inl ex)
  then show ?thesis using below by (simp add: callback_lookup_failed)
next
  case (Inr t)
  let ?clusters = "frame_clusters od P lidar_points"
  let ?c = "unat (obstacle_id this)"
  have empty: "curr_boxes this = []"
    using below by (simp add: ids_below_counter_def)
  have previous: "distinct (map box_id (prev_boxes this))"
    using below by (simp add: ids_below_counter_def)
  have size: "length ?clusters < 2 ^ 64" using room by simp
  have apart: "set (map box_id (prev_boxes this))
        \<inter> set (map box_id (fitted_boxes od P ?clusters (obstacle_id this))) = {}"
    using fitters below room by (intro ids_below_counter_apart) simp_all
  have distinct: "distinct (map box_id (frame_boxes od P lidar_points this))"
    using frame_box_ids_distinct [OF fitters tracker empty size previous apart] by simp
  have counter: "unat ((next_obstacle_id ^^ length ?clusters) (obstacle_id this))
      = ?c + length ?clusters"
    using room by (simp add: next_obstacle_id_funpow)
  have fresh: "a < ?c + length ?clusters"
    if "a \<in> set (map box_id (fitted_boxes od P ?clusters (obstacle_id this)))" for a
  proof -
    from that obtain k where "k < length ?clusters" and "a = (?c + k) mod 2 ^ 64"
      unfolding fitted_boxes_ids [OF fitters] by auto
    then show ?thesis using room by simp
  qed
  have old: "a < ?c + length ?clusters" if "a \<in> set (map box_id (prev_boxes this))" for a
    using that below by (fastforce simp: ids_below_counter_def list_all_iff)
  have "a < ?c + length ?clusters"
    if "a \<in> set (map box_id (frame_boxes od P lidar_points this))" for a
  proof (cases "USE_TRACKING P")
    case True
    then have "a \<in> set (map box_id (track (prev_boxes this)
        (fitted_boxes od P ?clusters (obstacle_id this)) (DISPLACEMENT_THRESH P) (IOU_THRESH P)))"
      using that empty tracker by (simp add: frame_boxes_def)
    then show ?thesis using track_ids_subset fresh old by blast
  next
    case False
    then show ?thesis using that empty fresh by (simp add: frame_boxes_def)
  qed
  then have "list_all (\<lambda>b. box_id b < ?c + length ?clusters) (frame_boxes od P lidar_points this)"
    by (simp add: list_all_iff)
  then show ?thesis
    using distinct counter by (simp add: callback_completed [OF Inr] ids_below_counter_def)
qed

end
